theory Spec2Isabelle
  imports Main "HOL-Library.Word" "HOL-Library.Sublist"
begin

section \<open>The snapshotter of dragonboat (snapshotter.go)\<close>

text \<open>
  The snapshotter orchestrates save, load, stream, commit, compact, shrink and orphan
  cleanup. Its own code is a sequence of calls into collaborators (the snapshot
  environment \<open>server.SSEnv\<close>, the log database \<open>raftio.ILogDB\<close>, \<open>fileutil\<close>, the
  readers and writers of \<open>rsm\<close> and \<open>dio\<close>) whose code is not part of snapshotter.go.
  The functions of snapshotter.go are embedded one to one; the collaborators are
  parameters: a record of operations over an arbitrary world \<open>'w\<close> (file system, log
  database, open readers and writers). An operation that changes the world takes it and
  returns the new one; an operation that only reads takes it.
\<close>

subsection \<open>Values\<close>

type_synonym uint64 = "64 word"
type_synonym bytes = "8 word list"

text \<open>Go errors are compared by identity; the three sentinel errors the code compares
  against are constructors of their own, every other error is an \<open>OtherError\<close>.\<close>

datatype error =
    ErrNoSnapshot
  | errSnapshotOutOfDate
  | server_ErrSnapshotOutOfDate
  | OtherError string

text \<open>A call either returns a value or panics (the process terminates with a message).\<close>

datatype 'a result = Ret 'a | Panic string

text \<open>\<open>pb.CompressionType\<close> is an integer enum: a value may be neither of the two
  declared tags.\<close>

datatype pb_CompressionType = pb_NoCompression | pb_Snappy | pb_UnknownCompression nat

datatype dio_CompressionType = dio_NoCompression | dio_Snappy

datatype StateMachineType =
  UnknownStateMachine | RegularStateMachine | ConcurrentStateMachine | OnDiskStateMachine

record SnapshotFile =
  file_Filepath :: string
  FileId :: uint64
  Metadata :: bytes

type_synonym Membership = "(uint64 \<times> string) list"

record Snapshot =
  Filepath :: string
  FileSize :: uint64
  Index :: uint64
  Term :: uint64
  Membership :: Membership
  Files :: "SnapshotFile list"
  Checksum :: bytes
  Dummy :: bool
  ClusterId :: uint64
  Type :: StateMachineType
  OnDiskIndex :: uint64

text \<open>\<open>pb.Update\<close>, with the fields \<open>saveToLogDB\<close> sets.\<close>

record Update =
  upd_ClusterID :: uint64
  upd_NodeID :: uint64
  upd_Snapshot :: Snapshot

text \<open>\<open>rsm.SSRequest\<close>: the result of its method \<open>IsExportedSnapshot\<close> and its field
  \<open>Path\<close>.\<close>

record SSRequest =
  IsExportedSnapshot :: bool
  Path :: string

record SSMeta =
  meta_Index :: uint64
  meta_Term :: uint64
  meta_OnDiskIndex :: uint64
  Request :: SSRequest
  meta_Membership :: Membership
  meta_Type :: StateMachineType
  Session :: bytes
  CompressionType :: pb_CompressionType

record SnapshotHeader =
  Version :: uint64
  header_CompressionType :: pb_CompressionType
  PayloadChecksum :: bytes

record FileInfo =
  Name :: string
  IsDir :: bool

datatype Mode = SnapshottingMode | ReceivingMode

text \<open>\<open>server.SSEnv\<close> as \<open>server.NewSSEnv\<close> builds it: the root directory its first
  argument gives for the replica, the index, the writer and the mode.\<close>

record SSEnv =
  env_rootDir :: string
  env_index :: uint64
  env_from :: uint64
  env_mode :: Mode

definition NewSSEnv ::
  "(uint64 \<Rightarrow> uint64 \<Rightarrow> string) \<Rightarrow> uint64 \<Rightarrow> uint64 \<Rightarrow> uint64 \<Rightarrow> uint64 \<Rightarrow> Mode \<Rightarrow> SSEnv" where
  "NewSSEnv f clusterID nodeID index from mode =
     \<lparr>env_rootDir = f clusterID nodeID, env_index = index, env_from = from, env_mode = mode\<rparr>"

record snapshotter =
  rootDirFunc :: "uint64 \<Rightarrow> uint64 \<Rightarrow> string"
  dir :: string
  clusterID :: uint64
  nodeID :: uint64

definition newSnapshotter ::
  "uint64 \<Rightarrow> uint64 \<Rightarrow> (uint64 \<Rightarrow> uint64 \<Rightarrow> string) \<Rightarrow> snapshotter" where
  "newSnapshotter cid nid f =
     \<lparr>rootDirFunc = f, dir = f cid nid, clusterID = cid, nodeID = nid\<rparr>"

definition snapshotsToKeep :: nat where
  "snapshotsToKeep = 3"

definition math_MaxUint64 :: uint64 where
  "math_MaxUint64 = - 1"

definition SnapshotFlagFilename :: string where
  "SnapshotFlagFilename = ''snapshot.message''"

definition filepath_Join :: "string \<Rightarrow> string \<Rightarrow> string" where
  "filepath_Join d n = d @ ''/'' @ n"

subsection \<open>The collaborators\<close>

text \<open>The file system and the log database: \<open>server.SSEnv\<close>, \<open>raftio.ILogDB\<close>,
  \<open>fileutil\<close>, \<open>os\<close>, \<open>ioutil\<close>, the three directory name patterns of \<open>server\<close>,
  \<open>pb.IsEmptySnapshot\<close> and the two file operations of \<open>rsm\<close> that \<open>Shrink\<close> uses.\<close>

record 'w store =
  CreateTempDir :: "SSEnv \<Rightarrow> 'w \<Rightarrow> error option \<times> 'w"
  SaveSSMetadata :: "SSEnv \<Rightarrow> Snapshot \<Rightarrow> 'w \<Rightarrow> error option \<times> 'w"
  FinalizeSnapshot :: "SSEnv \<Rightarrow> Snapshot \<Rightarrow> 'w \<Rightarrow> error option \<times> 'w"
  RemoveFlagFile :: "SSEnv \<Rightarrow> 'w \<Rightarrow> error option \<times> 'w"
  RemoveFinalDir :: "SSEnv \<Rightarrow> 'w \<Rightarrow> error option \<times> 'w"
  GetTempDir :: "SSEnv \<Rightarrow> string"
  GetFinalDir :: "SSEnv \<Rightarrow> string"
  GetTempFilepath :: "SSEnv \<Rightarrow> string"
  GetFilepath :: "SSEnv \<Rightarrow> string"
  GetShrinkedFilepath :: "SSEnv \<Rightarrow> string"
  ListSnapshots :: "'w \<Rightarrow> uint64 \<Rightarrow> uint64 \<Rightarrow> uint64 \<Rightarrow> error + Snapshot list"
  SaveSnapshots :: "Update list \<Rightarrow> 'w \<Rightarrow> error option \<times> 'w"
  DeleteSnapshot :: "uint64 \<Rightarrow> uint64 \<Rightarrow> uint64 \<Rightarrow> 'w \<Rightarrow> error option \<times> 'w"
  ReadDir :: "'w \<Rightarrow> string \<Rightarrow> error + FileInfo list"
  HasFlagFile :: "'w \<Rightarrow> string \<Rightarrow> string \<Rightarrow> bool"
  GetFlagFileContent :: "'w \<Rightarrow> string \<Rightarrow> string \<Rightarrow> error + Snapshot"
  RemoveAll :: "string \<Rightarrow> 'w \<Rightarrow> error option \<times> 'w"
  SyncDir :: "string \<Rightarrow> 'w \<Rightarrow> error option \<times> 'w"
  SnapshotDirNameRe :: "string \<Rightarrow> bool"
  GenSnapshotDirNameRe :: "string \<Rightarrow> bool"
  RecvSnapshotDirNameRe :: "string \<Rightarrow> bool"
  IsEmptySnapshot :: "Snapshot \<Rightarrow> bool"
  ShrinkSnapshot :: "string \<Rightarrow> string \<Rightarrow> 'w \<Rightarrow> error option \<times> 'w"
  ReplaceSnapshotFile :: "string \<Rightarrow> string \<Rightarrow> 'w \<Rightarrow> error option \<times> 'w"

subsection \<open>compressionType, getSSEnv, getCustomSSEnv, saveToLogDB\<close>

fun compressionType :: "pb_CompressionType \<Rightarrow> dio_CompressionType result" where
  "compressionType pb_NoCompression = Ret dio_NoCompression"
| "compressionType pb_Snappy = Ret dio_Snappy"
| "compressionType (pb_UnknownCompression n) = Panic ''unknown compression type''"

definition getSSEnv :: "snapshotter \<Rightarrow> uint64 \<Rightarrow> SSEnv" where
  "getSSEnv s index =
     NewSSEnv (rootDirFunc s) (clusterID s) (nodeID s) index (nodeID s) SnapshottingMode"

definition getCustomSSEnv :: "snapshotter \<Rightarrow> SSMeta \<Rightarrow> SSEnv result" where
  "getCustomSSEnv s meta =
     (if IsExportedSnapshot (Request meta) then
        (if length (Path (Request meta)) = 0 then
           Panic ''Path is empty when exporting snapshot''
         else
           Ret (NewSSEnv (\<lambda>clusterID nodeID. Path (Request meta))
                  (clusterID s) (nodeID s) (meta_Index meta) (nodeID s) SnapshottingMode))
      else Ret (getSSEnv s (meta_Index meta)))"

definition saveToLogDB :: "'w store \<Rightarrow> snapshotter \<Rightarrow> Snapshot \<Rightarrow> 'w \<Rightarrow> error option \<times> 'w" where
  "saveToLogDB st s snapshot w =
     (let rec = \<lparr>upd_ClusterID = clusterID s, upd_NodeID = nodeID s, upd_Snapshot = snapshot\<rparr>
      in SaveSnapshots st [rec] w)"

definition GetFilePath :: "'w store \<Rightarrow> snapshotter \<Rightarrow> uint64 \<Rightarrow> string" where
  "GetFilePath st s index = (let env = getSSEnv s index in GetFilepath st env)"

definition removeFlagFile :: "'w store \<Rightarrow> snapshotter \<Rightarrow> uint64 \<Rightarrow> 'w \<Rightarrow> error option \<times> 'w" where
  "removeFlagFile st s index w = (let env = getSSEnv s index in RemoveFlagFile st env w)"

definition IsNoSnapshotError :: "error \<Rightarrow> bool" where
  "IsNoSnapshotError e = (e = ErrNoSnapshot)"

subsection \<open>Commit\<close>

text \<open>\<open>Commit\<close> builds an \<open>SSMeta\<close> that has the index and the request set and every
  other field at Go's zero value.\<close>

definition commit_meta :: "Snapshot \<Rightarrow> SSRequest \<Rightarrow> SSMeta" where
  "commit_meta snapshot req =
     \<lparr>meta_Index = Index snapshot, meta_Term = 0, meta_OnDiskIndex = 0, Request = req,
      meta_Membership = [], meta_Type = UnknownStateMachine, Session = [],
      CompressionType = pb_NoCompression\<rparr>"

definition Commit ::
  "'w store \<Rightarrow> snapshotter \<Rightarrow> Snapshot \<Rightarrow> SSRequest \<Rightarrow> 'w \<Rightarrow> error option result \<times> 'w" where
  "Commit st s snapshot req w =
     (case getCustomSSEnv s (commit_meta snapshot req) of
        Panic msg \<Rightarrow> (Panic msg, w)
      | Ret env \<Rightarrow>
          (case SaveSSMetadata st env snapshot w of
             (Some err, w1) \<Rightarrow> (Ret (Some err), w1)
           | (None, w1) \<Rightarrow>
               (case FinalizeSnapshot st env snapshot w1 of
                  (Some err, w2) \<Rightarrow>
                    (if err = server_ErrSnapshotOutOfDate
                     then (Ret (Some errSnapshotOutOfDate), w2)
                     else (Ret (Some err), w2))
                | (None, w2) \<Rightarrow>
                    (if \<not> IsExportedSnapshot req then
                       (case saveToLogDB st s snapshot w2 of
                          (Some err, w3) \<Rightarrow> (Ret (Some err), w3)
                        | (None, w3) \<Rightarrow>
                            (case RemoveFlagFile st env w3 of (r, w4) \<Rightarrow> (Ret r, w4)))
                     else
                       (case RemoveFlagFile st env w2 of (r, w4) \<Rightarrow> (Ret r, w4))))))"

subsection \<open>GetSnapshot, GetMostRecentSnapshot\<close>

definition GetSnapshot :: "'w store \<Rightarrow> snapshotter \<Rightarrow> 'w \<Rightarrow> uint64 \<Rightarrow> error + Snapshot" where
  "GetSnapshot st s w index =
     (case ListSnapshots st w (clusterID s) (nodeID s) index of
        Inl err \<Rightarrow> Inl err
      | Inr snapshots \<Rightarrow>
          (case List.find (\<lambda>ss. Index ss = index) snapshots of
             Some ss \<Rightarrow> Inr ss
           | None \<Rightarrow> Inl ErrNoSnapshot))"

definition GetMostRecentSnapshot :: "'w store \<Rightarrow> snapshotter \<Rightarrow> 'w \<Rightarrow> error + Snapshot" where
  "GetMostRecentSnapshot st s w =
     (case ListSnapshots st w (clusterID s) (nodeID s) math_MaxUint64 of
        Inl err \<Rightarrow> Inl err
      | Inr snaps \<Rightarrow>
          (if length snaps > 0 then Inr (snaps ! (length snaps - 1))
           else Inl ErrNoSnapshot))"

subsection \<open>Shrink\<close>

fun Shrink_loop ::
  "'w store \<Rightarrow> snapshotter \<Rightarrow> uint64 \<Rightarrow> Snapshot list \<Rightarrow> 'w \<Rightarrow> error option result \<times> 'w" where
  "Shrink_loop st s shrinkTo [] w = (Ret None, w)"
| "Shrink_loop st s shrinkTo (ss # rest) w =
     (if Index ss > shrinkTo then (Panic ''unexpected snapshot found'', w)
      else if \<not> Dummy ss then
        (let env = getSSEnv s (Index ss);
             fp = GetFilepath st env;
             shrinkedFp = GetShrinkedFilepath st env
         in case ShrinkSnapshot st fp shrinkedFp w of
              (Some err, w1) \<Rightarrow> (Ret (Some err), w1)
            | (None, w1) \<Rightarrow>
                (case ReplaceSnapshotFile st shrinkedFp fp w1 of
                   (Some err, w2) \<Rightarrow> (Ret (Some err), w2)
                 | (None, w2) \<Rightarrow> Shrink_loop st s shrinkTo rest w2))
      else Shrink_loop st s shrinkTo rest w)"

definition Shrink ::
  "'w store \<Rightarrow> snapshotter \<Rightarrow> uint64 \<Rightarrow> 'w \<Rightarrow> error option result \<times> 'w" where
  "Shrink st s shrinkTo w =
     (case ListSnapshots st w (clusterID s) (nodeID s) shrinkTo of
        Inl err \<Rightarrow> (Ret (Some err), w)
      | Inr snapshots \<Rightarrow> Shrink_loop st s shrinkTo snapshots w)"

subsection \<open>Compact\<close>

fun Compact_loop ::
  "'w store \<Rightarrow> snapshotter \<Rightarrow> Snapshot list \<Rightarrow> 'w \<Rightarrow> error option \<times> 'w" where
  "Compact_loop st s [] w = (None, w)"
| "Compact_loop st s (ss # rest) w =
     (case DeleteSnapshot st (clusterID s) (nodeID s) (Index ss) w of
        (Some err, w1) \<Rightarrow> (Some err, w1)
      | (None, w1) \<Rightarrow>
          (let env = getSSEnv s (Index ss)
           in case RemoveFinalDir st env w1 of
                (Some err, w2) \<Rightarrow> (Some err, w2)
              | (None, w2) \<Rightarrow> Compact_loop st s rest w2))"

definition Compact :: "'w store \<Rightarrow> snapshotter \<Rightarrow> uint64 \<Rightarrow> 'w \<Rightarrow> error option \<times> 'w" where
  "Compact st s removeUpTo w =
     (case ListSnapshots st w (clusterID s) (nodeID s) removeUpTo of
        Inl err \<Rightarrow> (Some err, w)
      | Inr snapshots \<Rightarrow>
          (if length snapshots \<le> snapshotsToKeep then (None, w)
           else
             (let selected = take (length snapshots - snapshotsToKeep) snapshots
              in Compact_loop st s selected w)))"

subsection \<open>ProcessOrphans\<close>

definition dirNameMatch :: "'w store \<Rightarrow> string \<Rightarrow> bool" where
  "dirNameMatch st d = SnapshotDirNameRe st d"

definition isZombieDir :: "'w store \<Rightarrow> string \<Rightarrow> bool" where
  "isZombieDir st d = (GenSnapshotDirNameRe st d \<or> RecvSnapshotDirNameRe st d)"

definition isOrphanDir :: "'w store \<Rightarrow> snapshotter \<Rightarrow> 'w \<Rightarrow> string \<Rightarrow> bool" where
  "isOrphanDir st s w d =
     (if \<not> dirNameMatch st d then False
      else (let fdir = filepath_Join (dir s) d
            in HasFlagFile st w fdir SnapshotFlagFilename))"

text \<open>The body of the loop over the directory entries. \<open>Ret None\<close> is the end of an
  iteration (the loop goes on), \<open>Ret (Some err)\<close> is \<open>return err\<close>.\<close>

definition ProcessOrphans_entry ::
  "'w store \<Rightarrow> snapshotter \<Rightarrow> FileInfo \<Rightarrow> 'w \<Rightarrow> error option result \<times> 'w" where
  "ProcessOrphans_entry st s fi w =
     (if \<not> IsDir fi then (Ret None, w)
      else
        (let fdir = filepath_Join (dir s) (Name fi) in
         if isOrphanDir st s w (Name fi) then
           (case GetFlagFileContent st w fdir SnapshotFlagFilename of
              Inl err \<Rightarrow> (Ret (Some err), w)
            | Inr ss \<Rightarrow>
                (if IsEmptySnapshot st ss then (Panic ''empty snapshot found'', w)
                 else
                   (case
                      (case GetMostRecentSnapshot st s w of
                         Inl err \<Rightarrow> (if err = ErrNoSnapshot then Inr True else Inl err)
                       | Inr mrss \<Rightarrow> Inr (Index mrss \<noteq> Index ss))
                    of
                      Inl err \<Rightarrow> (Ret (Some err), w)
                    | Inr deleteDir \<Rightarrow>
                        (let env = getSSEnv s (Index ss) in
                         if deleteDir then
                           (case RemoveFinalDir st env w of (r, w1) \<Rightarrow> (Ret r, w1))
                         else
                           (case RemoveFlagFile st env w of (r, w1) \<Rightarrow> (Ret r, w1))))))
         else if isZombieDir st (Name fi) then
           (case RemoveAll st fdir w of
              (Some err, w1) \<Rightarrow> (Ret (Some err), w1)
            | (None, w1) \<Rightarrow>
                (case SyncDir st (dir s) w1 of (r, w2) \<Rightarrow> (Ret r, w2)))
         else (Ret None, w)))"

fun ProcessOrphans_loop ::
  "'w store \<Rightarrow> snapshotter \<Rightarrow> FileInfo list \<Rightarrow> 'w \<Rightarrow> error option result \<times> 'w" where
  "ProcessOrphans_loop st s [] w = (Ret None, w)"
| "ProcessOrphans_loop st s (fi # rest) w =
     (case ProcessOrphans_entry st s fi w of
        (Ret None, w1) \<Rightarrow> ProcessOrphans_loop st s rest w1
      | (r, w1) \<Rightarrow> (r, w1))"

definition ProcessOrphans ::
  "'w store \<Rightarrow> snapshotter \<Rightarrow> 'w \<Rightarrow> error option result \<times> 'w" where
  "ProcessOrphans st s w =
     (case ReadDir st w (dir s) of
        Inl err \<Rightarrow> (Ret (Some err), w)
      | Inr files \<Rightarrow> ProcessOrphans_loop st s files w)"

subsection \<open>Stream, Save, Load\<close>

text \<open>The readers and writers (\<open>rsm\<close>, \<open>dio\<close>), the chunk sink and the state machine's
  interfaces. The open reader, writer and sink are part of the world. \<open>ValidatePayload\<close>
  has no result in \<open>Load\<close>: it returns or it panics.\<close>

record 'w snapio =
  StreamSnapshot :: "dio_CompressionType \<Rightarrow> SSMeta \<Rightarrow> 'w \<Rightarrow> error option \<times> 'w"
  sink_Stop :: "'w \<Rightarrow> 'w"
  chunk_Close :: "dio_CompressionType \<Rightarrow> 'w \<Rightarrow> error option \<times> 'w"
  NewSnapshotWriter :: "string \<Rightarrow> uint64 \<Rightarrow> pb_CompressionType \<Rightarrow> 'w \<Rightarrow> error option \<times> 'w"
  SaveSnapshot :: "SSMeta \<Rightarrow> dio_CompressionType \<Rightarrow> bytes \<Rightarrow> 'w \<Rightarrow> (error + bool) \<times> 'w"
  PrepareFiles :: "string \<Rightarrow> string \<Rightarrow> 'w \<Rightarrow> (error + SnapshotFile list) \<times> 'w"
  writer_Close :: "dio_CompressionType \<Rightarrow> 'w \<Rightarrow> error option \<times> 'w"
  BytesWritten :: "'w \<Rightarrow> uint64"
  GetPayloadChecksum :: "'w \<Rightarrow> bytes"
  GetPayloadSize :: "'w \<Rightarrow> uint64 \<Rightarrow> uint64"
  SnapshotHeaderSize :: uint64
  SnapshotVersion :: uint64
  NewSnapshotReader :: "string \<Rightarrow> 'w \<Rightarrow> error option \<times> 'w"
  GetHeader :: "'w \<Rightarrow> (error + SnapshotHeader) \<times> 'w"
  reader_Close :: "'w \<Rightarrow> 'w"
  decompressor_Close :: "dio_CompressionType \<Rightarrow> 'w \<Rightarrow> error option \<times> 'w"
  LoadSessions :: "dio_CompressionType \<Rightarrow> uint64 \<Rightarrow> 'w \<Rightarrow> error option \<times> 'w"
  RecoverFromSnapshot :: "dio_CompressionType \<Rightarrow> SnapshotFile list \<Rightarrow> 'w \<Rightarrow> error option \<times> 'w"
  ValidatePayload :: "SnapshotHeader \<Rightarrow> 'w \<Rightarrow> unit result \<times> 'w"

definition Stream :: "'w snapio \<Rightarrow> SSMeta \<Rightarrow> 'w \<Rightarrow> error option result \<times> 'w" where
  "Stream io meta w =
     (case compressionType (CompressionType meta) of
        Panic msg \<Rightarrow> (Panic msg, w)
      | Ret ct \<Rightarrow>
          (case StreamSnapshot io ct meta w of
             (Some err, w1) \<Rightarrow> (Ret (Some err), sink_Stop io w1)
           | (None, w1) \<Rightarrow>
               (case chunk_Close io ct w1 of (r, w2) \<Rightarrow> (Ret r, w2))))"

text \<open>The deferred function of \<open>Save\<close>, run on every return after the writer is open:
  it closes the writer, keeps the first error, and fills in checksum and size when a
  snapshot record is returned.\<close>

definition Save_deferred ::
  "'w snapio \<Rightarrow> dio_CompressionType \<Rightarrow> Snapshot option \<Rightarrow> error option \<Rightarrow> 'w \<Rightarrow>
     (Snapshot option \<times> error option) \<times> 'w" where
  "Save_deferred io ct ss err w =
     (case writer_Close io ct w of
        (cerr, w1) \<Rightarrow>
          (let err' = (if err = None then cerr else err);
               ss' = (case ss of
                        None \<Rightarrow> None
                      | Some v \<Rightarrow>
                          (let total = BytesWritten io w1
                           in Some (v\<lparr>Checksum := GetPayloadChecksum io w1,
                                      FileSize := GetPayloadSize io w1 total
                                                    + SnapshotHeaderSize io\<rparr>)))
           in ((ss', err'), w1)))"

definition Save ::
  "'w store \<Rightarrow> 'w snapio \<Rightarrow> snapshotter \<Rightarrow> SSMeta \<Rightarrow> 'w \<Rightarrow>
     (Snapshot option \<times> SSEnv \<times> error option) result \<times> 'w" where
  "Save st io s meta w =
     (case getCustomSSEnv s meta of
        Panic msg \<Rightarrow> (Panic msg, w)
      | Ret env \<Rightarrow>
          (case CreateTempDir st env w of
             (Some err, w1) \<Rightarrow> (Ret (None, env, Some err), w1)
           | (None, w1) \<Rightarrow>
               (let fp = GetTempFilepath st env in
                case compressionType (CompressionType meta) of
                  Panic msg \<Rightarrow> (Panic msg, w1)
                | Ret ct \<Rightarrow>
                    (case NewSnapshotWriter io fp (SnapshotVersion io) (CompressionType meta) w1 of
                       (Some err, w2) \<Rightarrow> (Ret (None, env, Some err), w2)
                     | (None, w2) \<Rightarrow>
                         (case SaveSnapshot io meta ct (Session meta) w2 of
                            (Inl err, w3) \<Rightarrow>
                              (case Save_deferred io ct None (Some err) w3 of
                                 ((ss, e), w5) \<Rightarrow> (Ret (ss, env, e), w5))
                          | (Inr dummy, w3) \<Rightarrow>
                              (case PrepareFiles io (GetTempDir st env) (GetFinalDir st env) w3 of
                                 (Inl err, w4) \<Rightarrow>
                                   (case Save_deferred io ct None (Some err) w4 of
                                      ((ss, e), w5) \<Rightarrow> (Ret (ss, env, e), w5))
                               | (Inr fs, w4) \<Rightarrow>
                                   (let ss = \<lparr>Filepath = GetFilepath st env, FileSize = 0,
                                              Index = meta_Index meta, Term = meta_Term meta,
                                              Membership = meta_Membership meta, Files = fs,
                                              Checksum = [], Dummy = dummy,
                                              ClusterId = clusterID s, Type = meta_Type meta,
                                              OnDiskIndex = meta_OnDiskIndex meta\<rparr>
                                    in case Save_deferred io ct (Some ss) None w4 of
                                         ((ss', e), w5) \<Rightarrow> (Ret (ss', env, e), w5))))))))"

text \<open>The deferred function of \<open>Load\<close> closes the decompressor and keeps the first
  error; it also runs when the function panics, and the panic goes on.\<close>

definition Load_deferred ::
  "'w snapio \<Rightarrow> dio_CompressionType \<Rightarrow> error option result \<Rightarrow> 'w \<Rightarrow> error option result \<times> 'w" where
  "Load_deferred io ct r w =
     (case decompressor_Close io ct w of
        (cerr, w1) \<Rightarrow>
          (case r of
             Ret err \<Rightarrow> (Ret (if err = None then cerr else err), w1)
           | Panic msg \<Rightarrow> (Panic msg, w1)))"

definition Load ::
  "'w snapio \<Rightarrow> string \<Rightarrow> SnapshotFile list \<Rightarrow> 'w \<Rightarrow> error option result \<times> 'w" where
  "Load io fp fs w =
     (case NewSnapshotReader io fp w of
        (Some err, w1) \<Rightarrow> (Ret (Some err), w1)
      | (None, w1) \<Rightarrow>
          (case GetHeader io w1 of
             (Inl err, w2) \<Rightarrow> (Ret (Some err), reader_Close io w2)
           | (Inr header, w2) \<Rightarrow>
               (case compressionType (header_CompressionType header) of
                  Panic msg \<Rightarrow> (Panic msg, w2)
                | Ret ct \<Rightarrow>
                    (let v = Version header in
                     case LoadSessions io ct v w2 of
                       (Some err, w3) \<Rightarrow> Load_deferred io ct (Ret (Some err)) w3
                     | (None, w3) \<Rightarrow>
                         (case RecoverFromSnapshot io ct fs w3 of
                            (Some err, w4) \<Rightarrow> Load_deferred io ct (Ret (Some err)) w4
                          | (None, w4) \<Rightarrow>
                              (case ValidatePayload io header w4 of
                                 (Panic msg, w5) \<Rightarrow> Load_deferred io ct (Panic msg) w5
                               | (Ret u, w5) \<Rightarrow> Load_deferred io ct (Ret None) w5))))))"

subsection \<open>Observing the calls\<close>

text \<open>To state in which order the snapshotter calls its collaborators, every operation
  that changes the world is recorded: the world is paired with the list of calls made
  so far, each with the way it ended. The operations that only read are not recorded.\<close>

datatype call =
    Call_CreateTempDir SSEnv
  | Call_SaveSSMetadata SSEnv Snapshot
  | Call_FinalizeSnapshot SSEnv Snapshot
  | Call_RemoveFlagFile SSEnv
  | Call_RemoveFinalDir SSEnv
  | Call_SaveSnapshots "Update list"
  | Call_DeleteSnapshot uint64 uint64 uint64
  | Call_RemoveAll string
  | Call_SyncDir string
  | Call_ShrinkSnapshot string string
  | Call_ReplaceSnapshotFile string string
  | Call_StreamSnapshot
  | Call_sink_Stop
  | Call_chunk_Close
  | Call_NewSnapshotWriter string
  | Call_SaveSnapshot
  | Call_PrepareFiles string string
  | Call_writer_Close
  | Call_NewSnapshotReader string
  | Call_GetHeader
  | Call_reader_Close
  | Call_decompressor_Close
  | Call_LoadSessions uint64
  | Call_RecoverFromSnapshot "SnapshotFile list"
  | Call_ValidatePayload SnapshotHeader

datatype status = Done | Failed error | Panicked string

type_synonym event = "call \<times> status"

type_synonym 'w traced = "'w \<times> event list"

definition logged ::
  "call \<Rightarrow> ('w \<Rightarrow> error option \<times> 'w) \<Rightarrow> 'w traced \<Rightarrow> error option \<times> 'w traced" where
  "logged c f wt =
     (case f (fst wt) of
        (None, w') \<Rightarrow> (None, (w', snd wt @ [(c, Done)]))
      | (Some e, w') \<Rightarrow> (Some e, (w', snd wt @ [(c, Failed e)])))"

definition logged_val ::
  "call \<Rightarrow> ('w \<Rightarrow> (error + 'a) \<times> 'w) \<Rightarrow> 'w traced \<Rightarrow> (error + 'a) \<times> 'w traced" where
  "logged_val c f wt =
     (case f (fst wt) of
        (Inr v, w') \<Rightarrow> (Inr v, (w', snd wt @ [(c, Done)]))
      | (Inl e, w') \<Rightarrow> (Inl e, (w', snd wt @ [(c, Failed e)])))"

definition logged_unit :: "call \<Rightarrow> ('w \<Rightarrow> 'w) \<Rightarrow> 'w traced \<Rightarrow> 'w traced" where
  "logged_unit c f wt = (f (fst wt), snd wt @ [(c, Done)])"

definition logged_res ::
  "call \<Rightarrow> ('w \<Rightarrow> unit result \<times> 'w) \<Rightarrow> 'w traced \<Rightarrow> unit result \<times> 'w traced" where
  "logged_res c f wt =
     (case f (fst wt) of
        (Ret u, w') \<Rightarrow> (Ret u, (w', snd wt @ [(c, Done)]))
      | (Panic msg, w') \<Rightarrow> (Panic msg, (w', snd wt @ [(c, Panicked msg)])))"

definition traced_store :: "'w store \<Rightarrow> 'w traced store" where
  "traced_store st =
     \<lparr>CreateTempDir = (\<lambda>env. logged (Call_CreateTempDir env) (CreateTempDir st env)),
      SaveSSMetadata = (\<lambda>env ss. logged (Call_SaveSSMetadata env ss) (SaveSSMetadata st env ss)),
      FinalizeSnapshot =
        (\<lambda>env ss. logged (Call_FinalizeSnapshot env ss) (FinalizeSnapshot st env ss)),
      RemoveFlagFile = (\<lambda>env. logged (Call_RemoveFlagFile env) (RemoveFlagFile st env)),
      RemoveFinalDir = (\<lambda>env. logged (Call_RemoveFinalDir env) (RemoveFinalDir st env)),
      GetTempDir = GetTempDir st,
      GetFinalDir = GetFinalDir st,
      GetTempFilepath = GetTempFilepath st,
      GetFilepath = GetFilepath st,
      GetShrinkedFilepath = GetShrinkedFilepath st,
      ListSnapshots = (\<lambda>wt. ListSnapshots st (fst wt)),
      SaveSnapshots = (\<lambda>us. logged (Call_SaveSnapshots us) (SaveSnapshots st us)),
      DeleteSnapshot =
        (\<lambda>c n i. logged (Call_DeleteSnapshot c n i) (DeleteSnapshot st c n i)),
      ReadDir = (\<lambda>wt. ReadDir st (fst wt)),
      HasFlagFile = (\<lambda>wt. HasFlagFile st (fst wt)),
      GetFlagFileContent = (\<lambda>wt. GetFlagFileContent st (fst wt)),
      RemoveAll = (\<lambda>p. logged (Call_RemoveAll p) (RemoveAll st p)),
      SyncDir = (\<lambda>p. logged (Call_SyncDir p) (SyncDir st p)),
      SnapshotDirNameRe = SnapshotDirNameRe st,
      GenSnapshotDirNameRe = GenSnapshotDirNameRe st,
      RecvSnapshotDirNameRe = RecvSnapshotDirNameRe st,
      IsEmptySnapshot = IsEmptySnapshot st,
      ShrinkSnapshot =
        (\<lambda>a b. logged (Call_ShrinkSnapshot a b) (ShrinkSnapshot st a b)),
      ReplaceSnapshotFile =
        (\<lambda>a b. logged (Call_ReplaceSnapshotFile a b) (ReplaceSnapshotFile st a b))\<rparr>"

definition traced_snapio :: "'w snapio \<Rightarrow> 'w traced snapio" where
  "traced_snapio io =
     \<lparr>StreamSnapshot = (\<lambda>ct meta. logged Call_StreamSnapshot (StreamSnapshot io ct meta)),
      sink_Stop = logged_unit Call_sink_Stop (sink_Stop io),
      chunk_Close = (\<lambda>ct. logged Call_chunk_Close (chunk_Close io ct)),
      NewSnapshotWriter =
        (\<lambda>fp v ct. logged (Call_NewSnapshotWriter fp) (NewSnapshotWriter io fp v ct)),
      SaveSnapshot =
        (\<lambda>meta ct session. logged_val Call_SaveSnapshot (SaveSnapshot io meta ct session)),
      PrepareFiles = (\<lambda>a b. logged_val (Call_PrepareFiles a b) (PrepareFiles io a b)),
      writer_Close = (\<lambda>ct. logged Call_writer_Close (writer_Close io ct)),
      BytesWritten = (\<lambda>wt. BytesWritten io (fst wt)),
      GetPayloadChecksum = (\<lambda>wt. GetPayloadChecksum io (fst wt)),
      GetPayloadSize = (\<lambda>wt. GetPayloadSize io (fst wt)),
      SnapshotHeaderSize = SnapshotHeaderSize io,
      SnapshotVersion = SnapshotVersion io,
      NewSnapshotReader = (\<lambda>fp. logged (Call_NewSnapshotReader fp) (NewSnapshotReader io fp)),
      GetHeader = logged_val Call_GetHeader (GetHeader io),
      reader_Close = logged_unit Call_reader_Close (reader_Close io),
      decompressor_Close = (\<lambda>ct. logged Call_decompressor_Close (decompressor_Close io ct)),
      LoadSessions = (\<lambda>ct v. logged (Call_LoadSessions v) (LoadSessions io ct v)),
      RecoverFromSnapshot =
        (\<lambda>ct fs. logged (Call_RecoverFromSnapshot fs) (RecoverFromSnapshot io ct fs)),
      ValidatePayload = (\<lambda>h. logged_res (Call_ValidatePayload h) (ValidatePayload io h))\<rparr>"

text \<open>A run of a sequence of calls that stops at the first failure: the events are the
  calls in their order, every call before the last one ended well, and the result is
  the error of the call that failed, or none when all of them ran and ended well.\<close>

fun seq_run :: "call list \<Rightarrow> event list \<Rightarrow> error option \<Rightarrow> bool" where
  "seq_run [] es r = (es = [] \<and> r = None)"
| "seq_run (c # cs) [] r = False"
| "seq_run (c # cs) ((c', Done) # es) r = (c' = c \<and> seq_run cs es r)"
| "seq_run (c # cs) ((c', Failed e) # es) r = (c' = c \<and> es = [] \<and> r = Some e)"
| "seq_run (c # cs) ((c', Panicked msg) # es) r = False"

subsection \<open>The calls each operation is expected to make\<close>

text \<open>The steps of a commit, in the order the specification gives: write the flag
  file's metadata, finalize, record the snapshot in the log database unless the request
  is an exported snapshot, remove the flag file.\<close>

definition commit_steps :: "snapshotter \<Rightarrow> SSEnv \<Rightarrow> Snapshot \<Rightarrow> SSRequest \<Rightarrow> call list" where
  "commit_steps s env snapshot req =
     [Call_SaveSSMetadata env snapshot, Call_FinalizeSnapshot env snapshot]
     @ (if IsExportedSnapshot req then []
        else [Call_SaveSnapshots
                [\<lparr>upd_ClusterID = clusterID s, upd_NodeID = nodeID s,
                  upd_Snapshot = snapshot\<rparr>]])
     @ [Call_RemoveFlagFile env]"

text \<open>Compaction of a list of snapshots: for each one, the log database record is
  deleted, then the final directory removed.\<close>

definition compact_calls :: "snapshotter \<Rightarrow> Snapshot list \<Rightarrow> call list" where
  "compact_calls s l =
     concat (map (\<lambda>ss. [Call_DeleteSnapshot (clusterID s) (nodeID s) (Index ss),
                         Call_RemoveFinalDir (getSSEnv s (Index ss))]) l)"

text \<open>Shrinking a list of snapshots: for each one that is not a dummy, the shrunk file
  is produced at the shrinked path, then put in the place of the payload file.\<close>

definition shrink_calls :: "'w store \<Rightarrow> snapshotter \<Rightarrow> Snapshot list \<Rightarrow> call list" where
  "shrink_calls st s l =
     concat (map (\<lambda>ss. [Call_ShrinkSnapshot (GetFilepath st (getSSEnv s (Index ss)))
                                              (GetShrinkedFilepath st (getSSEnv s (Index ss))),
                         Call_ReplaceSnapshotFile (GetShrinkedFilepath st (getSSEnv s (Index ss)))
                                                  (GetFilepath st (getSSEnv s (Index ss)))])
                 (filter (\<lambda>ss. \<not> Dummy ss) l))"

subsection \<open>The payload check\<close>

text \<open>Modelled from the spec: \<open>rsm.SnapshotReader.ValidatePayload\<close> is not part of
  snapshotter.go. The specification says that the reader validates the payload
  checksum on \<open>validate_payload\<close> and that load fails if the checksum mismatches. \<open>Load\<close>
  calls it as a statement and reads no result, so the only way a mismatch can end the
  load is a panic. \<open>payload_sum\<close> gives the checksum the reader has computed over
  the payload it has read.\<close>

definition ValidatePayload_spec ::
  "('w \<Rightarrow> bytes) \<Rightarrow> SnapshotHeader \<Rightarrow> 'w \<Rightarrow> unit result \<times> 'w" where
  "ValidatePayload_spec payload_sum header w =
     (if payload_sum w = PayloadChecksum header then (Ret (), w)
      else (Panic ''corrupted snapshot payload'', w))"

definition checked_snapio :: "('w \<Rightarrow> bytes) \<Rightarrow> 'w snapio \<Rightarrow> 'w snapio" where
  "checked_snapio payload_sum io = io\<lparr>ValidatePayload := ValidatePayload_spec payload_sum\<rparr>"

definition status_of :: "error option \<Rightarrow> status" where
  "status_of r = (case r of None \<Rightarrow> Done | Some e \<Rightarrow> Failed e)"

subsection \<open>The snapshot environment on a file system\<close>

text \<open>Modelled from the spec: the methods of \<open>server.SSEnv\<close> and the log database are
  not part of snapshotter.go. The specification (sections 4.1 and 6) gives the temp
  directory \<open>generating-<index>-<writer>\<close> and the final directory \<open>snapshot-<index>\<close>
  under the root, the flag file inside them, and:
  \<open>save_metadata\<close> writes or overwrites the flag file inside the temp directory;
  \<open>finalize\<close> writes the flag file into the temp directory, renames temp to final, and
  fails with \<open>OutOfDate\<close> if the final directory already exists;
  \<open>remove_flag_file\<close> removes the flag file from the final directory;
  \<open>save_snapshots\<close> appends the snapshot metadata to the log database.
  A directory is absent, or present with the content of its flag file when it has one.
  An operation on a directory that is absent fails with an I/O error.\<close>

datatype snapdir = NoDir | Dir "Snapshot option"

record fs =
  temp_dirs :: "string \<times> uint64 \<times> uint64 \<Rightarrow> snapdir"
  final_dirs :: "string \<times> uint64 \<Rightarrow> snapdir"
  logdb :: "Snapshot list"

definition temp_key :: "SSEnv \<Rightarrow> string \<times> uint64 \<times> uint64" where
  "temp_key env = (env_rootDir env, env_index env, env_from env)"

definition final_key :: "SSEnv \<Rightarrow> string \<times> uint64" where
  "final_key env = (env_rootDir env, env_index env)"

definition save_metadata_spec :: "SSEnv \<Rightarrow> Snapshot \<Rightarrow> fs \<Rightarrow> error option \<times> fs" where
  "save_metadata_spec env ss w =
     (case temp_dirs w (temp_key env) of
        NoDir \<Rightarrow> (Some (OtherError ''no temp dir''), w)
      | Dir f \<Rightarrow> (None, w\<lparr>temp_dirs := (temp_dirs w)(temp_key env := Dir (Some ss))\<rparr>))"

definition finalize_spec :: "SSEnv \<Rightarrow> Snapshot \<Rightarrow> fs \<Rightarrow> error option \<times> fs" where
  "finalize_spec env ss w =
     (case temp_dirs w (temp_key env) of
        NoDir \<Rightarrow> (Some (OtherError ''no temp dir''), w)
      | Dir f \<Rightarrow>
          (let w1 = w\<lparr>temp_dirs := (temp_dirs w)(temp_key env := Dir (Some ss))\<rparr>
           in case final_dirs w1 (final_key env) of
                Dir g \<Rightarrow> (Some server_ErrSnapshotOutOfDate, w1)
              | NoDir \<Rightarrow>
                  (None, w1\<lparr>temp_dirs := (temp_dirs w1)(temp_key env := NoDir),
                            final_dirs := (final_dirs w1)(final_key env := Dir (Some ss))\<rparr>)))"

definition remove_flag_file_spec :: "SSEnv \<Rightarrow> fs \<Rightarrow> error option \<times> fs" where
  "remove_flag_file_spec env w =
     (case final_dirs w (final_key env) of
        NoDir \<Rightarrow> (Some (OtherError ''no final dir''), w)
      | Dir f \<Rightarrow> (None, w\<lparr>final_dirs := (final_dirs w)(final_key env := Dir None)\<rparr>))"

definition save_snapshots_spec :: "Update list \<Rightarrow> fs \<Rightarrow> error option \<times> fs" where
  "save_snapshots_spec us w = (None, w\<lparr>logdb := logdb w @ map upd_Snapshot us\<rparr>)"

definition fs_store :: "fs store \<Rightarrow> fs store" where
  "fs_store st =
     st\<lparr>SaveSSMetadata := save_metadata_spec,
        FinalizeSnapshot := finalize_spec,
        RemoveFlagFile := remove_flag_file_spec,
        SaveSnapshots := save_snapshots_spec\<rparr>"

subsection \<open>The directory name patterns\<close>

text \<open>Modelled from the spec: the three patterns \<open>server.SnapshotDirNameRe\<close>,
  \<open>server.GenSnapshotDirNameRe\<close> and \<open>server.RecvSnapshotDirNameRe\<close> are declared
  outside snapshotter.go. The specification gives them as
  \<^verbatim>\<open>^snapshot-[0-9a-f]{16}$\<close>, \<^verbatim>\<open>^generating-[0-9a-f]{16}-[0-9a-f]+$\<close> and
  \<^verbatim>\<open>^receiving-[0-9a-f]{16}-[0-9a-f]+$\<close>.\<close>

definition is_hex_digit :: "char \<Rightarrow> bool" where
  "is_hex_digit c = (c \<in> set ''0123456789abcdef'')"

definition SnapshotDirNameRe_spec :: "string \<Rightarrow> bool" where
  "SnapshotDirNameRe_spec n =
     (take 9 n = ''snapshot-'' \<and> length (drop 9 n) = 16 \<and> list_all is_hex_digit (drop 9 n))"

definition scratch_dir_name :: "string \<Rightarrow> string \<Rightarrow> bool" where
  "scratch_dir_name pre n =
     (take (length pre) n = pre \<and>
      (let rest = drop (length pre) n in
         length (take 16 rest) = 16 \<and> list_all is_hex_digit (take 16 rest) \<and>
         take 1 (drop 16 rest) = ''-'' \<and>
         drop 17 rest \<noteq> [] \<and> list_all is_hex_digit (drop 17 rest)))"

definition GenSnapshotDirNameRe_spec :: "string \<Rightarrow> bool" where
  "GenSnapshotDirNameRe_spec = scratch_dir_name ''generating-''"

definition RecvSnapshotDirNameRe_spec :: "string \<Rightarrow> bool" where
  "RecvSnapshotDirNameRe_spec = scratch_dir_name ''receiving-''"

definition spec_patterns :: "'w store \<Rightarrow> 'w store" where
  "spec_patterns st =
     st\<lparr>SnapshotDirNameRe := SnapshotDirNameRe_spec,
        GenSnapshotDirNameRe := GenSnapshotDirNameRe_spec,
        RecvSnapshotDirNameRe := RecvSnapshotDirNameRe_spec\<rparr>"

text \<open>The calls that remove the zombie directories of a listing: for each subdirectory
  with a generating or receiving name, the recursive removal, then the fsync of the
  parent directory.\<close>

fun is_fs_call :: "call \<Rightarrow> bool" where
  "is_fs_call (Call_RemoveAll p) = True"
| "is_fs_call (Call_SyncDir p) = True"
| "is_fs_call c = False"

definition zombie_calls :: "'w store \<Rightarrow> snapshotter \<Rightarrow> FileInfo list \<Rightarrow> call list" where
  "zombie_calls st s files =
     concat (map (\<lambda>fi. [Call_RemoveAll (filepath_Join (dir s) (Name fi)), Call_SyncDir (dir s)])
                 (filter (\<lambda>fi. IsDir fi \<and> isZombieDir st (Name fi)) files))"

subsection \<open>Concrete inputs\<close>

text \<open>A store in which every operation succeeds and changes nothing, a directory is
  empty and the log database lists no snapshot; concrete runs replace the operations
  they are about.\<close>

definition idle_store :: "'w store" where
  "idle_store =
     \<lparr>CreateTempDir = (\<lambda>env w. (None, w)),
      SaveSSMetadata = (\<lambda>env ss w. (None, w)),
      FinalizeSnapshot = (\<lambda>env ss w. (None, w)),
      RemoveFlagFile = (\<lambda>env w. (None, w)),
      RemoveFinalDir = (\<lambda>env w. (None, w)),
      GetTempDir = (\<lambda>env. ''tmp''),
      GetFinalDir = (\<lambda>env. ''final''),
      GetTempFilepath = (\<lambda>env. ''tmp/file''),
      GetFilepath = (\<lambda>env. ''final/file''),
      GetShrinkedFilepath = (\<lambda>env. ''final/file.shrinked''),
      ListSnapshots = (\<lambda>w c n i. Inr []),
      SaveSnapshots = (\<lambda>us w. (None, w)),
      DeleteSnapshot = (\<lambda>c n i w. (None, w)),
      ReadDir = (\<lambda>w d. Inr []),
      HasFlagFile = (\<lambda>w d f. False),
      GetFlagFileContent = (\<lambda>w d f. Inl (OtherError ''no flag file'')),
      RemoveAll = (\<lambda>p w. (None, w)),
      SyncDir = (\<lambda>p w. (None, w)),
      SnapshotDirNameRe = (\<lambda>n. False),
      GenSnapshotDirNameRe = (\<lambda>n. False),
      RecvSnapshotDirNameRe = (\<lambda>n. False),
      IsEmptySnapshot = (\<lambda>ss. Index ss = 0),
      ShrinkSnapshot = (\<lambda>a b w. (None, w)),
      ReplaceSnapshotFile = (\<lambda>a b w. (None, w))\<rparr>"

definition example_snapshotter :: snapshotter where
  "example_snapshotter = newSnapshotter 1 2 (\<lambda>c n. ''/data'')"

definition example_snapshot :: "uint64 \<Rightarrow> bool \<Rightarrow> Snapshot" where
  "example_snapshot i d =
     \<lparr>Filepath = ''f'', FileSize = 0, Index = i, Term = 1, Membership = [], Files = [],
      Checksum = [], Dummy = d, ClusterId = 1, Type = RegularStateMachine, OnDiskIndex = 0\<rparr>"

text \<open>A log database that lists the snapshots 10, 20, 30, 40 and 50, the one at 20 a
  dummy.\<close>

definition example_listing :: "Snapshot list" where
  "example_listing =
     [example_snapshot 10 False, example_snapshot 20 True, example_snapshot 30 False,
      example_snapshot 40 False, example_snapshot 50 False]"

text \<open>The names of the final directories of these five under the specification's
  layout, and a store whose payload paths follow it.\<close>

definition example_hex :: "uint64 \<Rightarrow> string" where
  "example_hex i =
     (if i = 10 then ''000000000000000a'' else if i = 20 then ''0000000000000014''
      else if i = 30 then ''000000000000001e'' else if i = 40 then ''0000000000000028''
      else if i = 50 then ''0000000000000032'' else ''ffffffffffffffff'')"

definition listing_store :: "unit store" where
  "listing_store =
     idle_store
       \<lparr>GetFilepath := (\<lambda>env. ''snapshot-'' @ example_hex (env_index env) @ ''.gbsnap''),
        GetShrinkedFilepath :=
          (\<lambda>env. ''snapshot-'' @ example_hex (env_index env) @ ''.gbsnap.shrinked''),
        ListSnapshots := (\<lambda>w c n i. Inr example_listing)\<rparr>"

text \<open>A snapshot root with an orphan directory for index 20 (its flag file is still
  there), two zombie directories, a directory of another kind and a plain file, over
  the log database above.\<close>

definition example_dir :: "FileInfo list" where
  "example_dir =
     [\<lparr>Name = ''snapshot-0000000000000014'', IsDir = True\<rparr>,
      \<lparr>Name = ''generating-0000000000000064-abcd'', IsDir = True\<rparr>,
      \<lparr>Name = ''mydata'', IsDir = True\<rparr>,
      \<lparr>Name = ''receiving-0000000000000064-1'', IsDir = True\<rparr>,
      \<lparr>Name = ''LOCK'', IsDir = False\<rparr>]"

definition orphan_store :: "unit store" where
  "orphan_store =
     idle_store
       \<lparr>ListSnapshots := (\<lambda>w c n i. Inr example_listing),
        ReadDir := (\<lambda>w d. Inr example_dir),
        HasFlagFile :=
          (\<lambda>w d f. d = ''/data/snapshot-0000000000000014'' \<and> f = ''snapshot.message''),
        GetFlagFileContent := (\<lambda>w d f. Inr (example_snapshot 20 False))\<rparr>"

text \<open>Readers, writers and a state machine whose operations all succeed and change
  nothing; the header read names no compression and the payload checksum 1 2 3 4.\<close>

definition example_header :: SnapshotHeader where
  "example_header =
     \<lparr>Version = 2, header_CompressionType = pb_NoCompression, PayloadChecksum = [1, 2, 3, 4]\<rparr>"

definition idle_snapio :: "'w snapio" where
  "idle_snapio =
     \<lparr>StreamSnapshot = (\<lambda>ct meta w. (None, w)),
      sink_Stop = (\<lambda>w. w),
      chunk_Close = (\<lambda>ct w. (None, w)),
      NewSnapshotWriter = (\<lambda>fp v ct w. (None, w)),
      SaveSnapshot = (\<lambda>meta ct session w. (Inr False, w)),
      PrepareFiles = (\<lambda>a b w. (Inr [], w)),
      writer_Close = (\<lambda>ct w. (None, w)),
      BytesWritten = (\<lambda>w. 100),
      GetPayloadChecksum = (\<lambda>w. [1, 2, 3, 4]),
      GetPayloadSize = (\<lambda>w total. total),
      SnapshotHeaderSize = 1024,
      SnapshotVersion = 2,
      NewSnapshotReader = (\<lambda>fp w. (None, w)),
      GetHeader = (\<lambda>w. (Inr example_header, w)),
      reader_Close = (\<lambda>w. w),
      decompressor_Close = (\<lambda>ct w. (None, w)),
      LoadSessions = (\<lambda>ct v w. (None, w)),
      RecoverFromSnapshot = (\<lambda>ct fs w. (None, w)),
      ValidatePayload = (\<lambda>h w. (Ret (), w))\<rparr>"

definition example_meta :: SSMeta where
  "example_meta =
     \<lparr>meta_Index = 20, meta_Term = 1, meta_OnDiskIndex = 0,
      Request = \<lparr>IsExportedSnapshot = False, Path = []\<rparr>,
      meta_Membership = [], meta_Type = RegularStateMachine, Session = [],
      CompressionType = pb_Snappy\<rparr>"

text \<open>A file system on which the snapshot at index 30 is committed (its final
  directory has no flag file and the log database lists it) and a temp directory for
  index 20 is waiting.\<close>

definition example_fs :: fs where
  "example_fs =
     \<lparr>temp_dirs = (\<lambda>k. NoDir)((''/data'', 20, 2) := Dir None),
      final_dirs = (\<lambda>k. NoDir)((''/data'', 30) := Dir None),
      logdb = [example_snapshot 30 False]\<rparr>"

text \<open>The same with a temp directory for index 30 as well.\<close>

definition example_fs_again :: fs where
  "example_fs_again =
     example_fs\<lparr>temp_dirs := (temp_dirs example_fs)((''/data'', 30, 2) := Dir None)\<rparr>"

subsection \<open>The snapshot root on disk\<close>
















section \<open>Properties\<close>

subsection \<open>Auxiliary facts\<close>

lemma traced_store_simps [simp]:
  "CreateTempDir (traced_store st) = (\<lambda>env. logged (Call_CreateTempDir env) (CreateTempDir st env))"
  "SaveSSMetadata (traced_store st) =
     (\<lambda>env ss. logged (Call_SaveSSMetadata env ss) (SaveSSMetadata st env ss))"
  "FinalizeSnapshot (traced_store st) =
     (\<lambda>env ss. logged (Call_FinalizeSnapshot env ss) (FinalizeSnapshot st env ss))"
  "RemoveFlagFile (traced_store st) = (\<lambda>env. logged (Call_RemoveFlagFile env) (RemoveFlagFile st env))"
  "RemoveFinalDir (traced_store st) = (\<lambda>env. logged (Call_RemoveFinalDir env) (RemoveFinalDir st env))"
  "GetTempDir (traced_store st) = GetTempDir st"
  "GetFinalDir (traced_store st) = GetFinalDir st"
  "GetTempFilepath (traced_store st) = GetTempFilepath st"
  "GetFilepath (traced_store st) = GetFilepath st"
  "GetShrinkedFilepath (traced_store st) = GetShrinkedFilepath st"
  "ListSnapshots (traced_store st) = (\<lambda>wt. ListSnapshots st (fst wt))"
  "SaveSnapshots (traced_store st) = (\<lambda>us. logged (Call_SaveSnapshots us) (SaveSnapshots st us))"
  "DeleteSnapshot (traced_store st) =
     (\<lambda>c n i. logged (Call_DeleteSnapshot c n i) (DeleteSnapshot st c n i))"
  "ReadDir (traced_store st) = (\<lambda>wt. ReadDir st (fst wt))"
  "HasFlagFile (traced_store st) = (\<lambda>wt. HasFlagFile st (fst wt))"
  "GetFlagFileContent (traced_store st) = (\<lambda>wt. GetFlagFileContent st (fst wt))"
  "RemoveAll (traced_store st) = (\<lambda>p. logged (Call_RemoveAll p) (RemoveAll st p))"
  "SyncDir (traced_store st) = (\<lambda>p. logged (Call_SyncDir p) (SyncDir st p))"
  "SnapshotDirNameRe (traced_store st) = SnapshotDirNameRe st"
  "GenSnapshotDirNameRe (traced_store st) = GenSnapshotDirNameRe st"
  "RecvSnapshotDirNameRe (traced_store st) = RecvSnapshotDirNameRe st"
  "IsEmptySnapshot (traced_store st) = IsEmptySnapshot st"
  "ShrinkSnapshot (traced_store st) =
     (\<lambda>a b. logged (Call_ShrinkSnapshot a b) (ShrinkSnapshot st a b))"
  "ReplaceSnapshotFile (traced_store st) =
     (\<lambda>a b. logged (Call_ReplaceSnapshotFile a b) (ReplaceSnapshotFile st a b))"
  by (simp_all add: traced_store_def)

lemma logged_eq:
  "f w = (r, w') \<Longrightarrow> logged c f (w, t) = (r, (w', t @ [(c, status_of r)]))"
  by (cases r) (simp_all add: logged_def status_of_def)

lemma seq_run_None: "seq_run cs es None \<Longrightarrow> es = map (\<lambda>c. (c, Done)) cs"
  by (induction cs es "None :: error option" rule: seq_run.induct) auto

lemma seq_run_prefix: "seq_run cs es r \<Longrightarrow> prefix (map fst es) cs"
  by (induction cs es r rule: seq_run.induct) auto

lemma getSSEnv_inj: "getSSEnv s i = getSSEnv s j \<Longrightarrow> i = j"
  by (simp add: getSSEnv_def NewSSEnv_def)

lemma take_drop_disjoint:
  assumes "distinct (map f xs)" "x \<in> set (take k xs)" "y \<in> set (drop k xs)"
  shows "f x \<noteq> f y"
proof -
  have "distinct (map f (take k xs) @ map f (drop k xs))"
    using assms(1) by (metis append_take_drop_id map_append)
  then have "set (map f (take k xs)) \<inter> set (map f (drop k xs)) = {}"
    by simp
  with assms(2,3) show ?thesis by auto
qed

lemmas example_defs =
  example_snapshotter_def newSnapshotter_def example_snapshot_def example_listing_def listing_store_def example_hex_def
  idle_store_def getSSEnv_def NewSSEnv_def

subsection \<open>Commit\<close>

text \<open>
  Claim C2. Whenever \<open>Commit\<close> gets its environment, the calls it makes are the steps of
  a commit in their order: the flag file's metadata is written, the snapshot is
  finalized, the record is written to the log database unless the request is an exported
  snapshot (then that call is not made), and the flag file is removed. Every step runs
  only when all steps before it ended well, so a commit that returns no error has made
  all of them, in this order, and a step that fails is the last call made; its error is
  returned (the out-of-date error of the environment as the snapshotter's own).
\<close>

theorem Commit_steps_in_order:
  assumes env: "getCustomSSEnv s (commit_meta snapshot req) = Ret env"
    and run: "Commit (traced_store st) s snapshot req (w, t0) = (r, (w', t))"
  shows "\<exists>es r'. t = t0 @ es \<and> seq_run (commit_steps s env snapshot req) es r'
           \<and> (r = Ret r' \<or>
               (r' = Some server_ErrSnapshotOutOfDate \<and> r = Ret (Some errSnapshotOutOfDate)))
           \<and> (r = Ret None \<longrightarrow> es = map (\<lambda>c. (c, Done)) (commit_steps s env snapshot req))"
proof -
  obtain r1 w1 where 1: "SaveSSMetadata st env snapshot w = (r1, w1)" by fastforce
  obtain r2 w2 where 2: "FinalizeSnapshot st env snapshot w1 = (r2, w2)" by fastforce
  obtain r3 w3 where 3:
    "SaveSnapshots st [\<lparr>upd_ClusterID = clusterID s, upd_NodeID = nodeID s,
                        upd_Snapshot = snapshot\<rparr>] w2 = (r3, w3)" by fastforce
  obtain r4 w4 where 4: "RemoveFlagFile st env w3 = (r4, w4)" by fastforce
  obtain r5 w5 where 5: "RemoveFlagFile st env w2 = (r5, w5)" by fastforce
  show ?thesis
    using run
    by (cases r1; cases r2; cases r3; cases r4; cases r5)
       (auto simp: Commit_def env commit_steps_def saveToLogDB_def logged_def Let_def
          1 2 3 4 5 split: if_splits)
qed

theorem Commit_steps_in_order_witness:
  "getCustomSSEnv example_snapshotter
     (commit_meta (example_snapshot 20 False) \<lparr>IsExportedSnapshot = False, Path = []\<rparr>)
     = Ret (getSSEnv example_snapshotter 20)
   \<and> Commit (traced_store idle_store) example_snapshotter (example_snapshot 20 False)
       \<lparr>IsExportedSnapshot = False, Path = []\<rparr> ((), [])
     = (Ret None, ((),
         [(Call_SaveSSMetadata (getSSEnv example_snapshotter 20) (example_snapshot 20 False), Done),
          (Call_FinalizeSnapshot (getSSEnv example_snapshotter 20) (example_snapshot 20 False), Done),
          (Call_SaveSnapshots [\<lparr>upd_ClusterID = 1, upd_NodeID = 2,
                                 upd_Snapshot = example_snapshot 20 False\<rparr>], Done),
          (Call_RemoveFlagFile (getSSEnv example_snapshotter 20), Done)]))
   \<and> commit_steps example_snapshotter (getSSEnv example_snapshotter 20)
       (example_snapshot 20 False) \<lparr>IsExportedSnapshot = False, Path = []\<rparr>
     = [Call_SaveSSMetadata (getSSEnv example_snapshotter 20) (example_snapshot 20 False),
        Call_FinalizeSnapshot (getSSEnv example_snapshotter 20) (example_snapshot 20 False),
        Call_SaveSnapshots [\<lparr>upd_ClusterID = 1, upd_NodeID = 2,
                              upd_Snapshot = example_snapshot 20 False\<rparr>],
        Call_RemoveFlagFile (getSSEnv example_snapshotter 20)]"
proof -
  let ?req = "\<lparr>IsExportedSnapshot = False, Path = []\<rparr>"
  let ?env = "getSSEnv example_snapshotter 20"
  let ?ss = "example_snapshot 20 False"
  let ?t = "[(Call_SaveSSMetadata ?env ?ss, Done), (Call_FinalizeSnapshot ?env ?ss, Done),
          (Call_SaveSnapshots [\<lparr>upd_ClusterID = 1, upd_NodeID = 2, upd_Snapshot = ?ss\<rparr>], Done),
          (Call_RemoveFlagFile ?env, Done)]"
  have h1: "getCustomSSEnv example_snapshotter (commit_meta ?ss ?req) = Ret ?env"
    by (simp add: getCustomSSEnv_def commit_meta_def example_defs)
  have h2: "Commit (traced_store idle_store) example_snapshotter ?ss ?req ((), [])
              = (Ret None, ((), ?t))"
    by (simp add: Commit_def getCustomSSEnv_def commit_meta_def saveToLogDB_def logged_def
          example_defs)
  from Commit_steps_in_order[OF h1 h2]
  have "\<exists>es. ?t = [] @ es \<and> es = map (\<lambda>c. (c, Done)) (commit_steps example_snapshotter ?env ?ss ?req)"
    by auto
  then have "commit_steps example_snapshotter ?env ?ss ?req = map fst ?t"
    by (simp add: comp_def)
  with h1 h2 show ?thesis by simp
qed

subsection \<open>Compact\<close>

lemma Compact_loop_run:
  "Compact_loop (traced_store st) s l (w, t0) = (r, (w', t)) \<Longrightarrow>
     \<exists>es. t = t0 @ es \<and> seq_run (compact_calls s l) es r"
proof (induction l arbitrary: w t0)
  case Nil
  then show ?case by (simp add: compact_calls_def)
next
  case (Cons ss rest)
  obtain r1 w1 where 1: "DeleteSnapshot st (clusterID s) (nodeID s) (Index ss) w = (r1, w1)"
    by fastforce
  obtain r2 w2 where 2: "RemoveFinalDir st (getSSEnv s (Index ss)) w1 = (r2, w2)"
    by fastforce
  show ?case
  proof (cases r1)
    case (Some e)
    with Cons.prems 1 show ?thesis by (auto simp: logged_def compact_calls_def)
  next
    case None
    note r1 = this
    show ?thesis
    proof (cases r2)
      case (Some e)
      with Cons.prems 1 2 r1 show ?thesis by (auto simp: logged_def compact_calls_def)
    next
      case None
      with Cons.prems 1 2 r1 have
        "Compact_loop (traced_store st) s rest
           (w2, t0 @ [(Call_DeleteSnapshot (clusterID s) (nodeID s) (Index ss), Done),
                      (Call_RemoveFinalDir (getSSEnv s (Index ss)), Done)]) = (r, (w', t))"
        by (simp add: logged_def)
      from Cons.IH[OF this] show ?thesis by (auto simp: compact_calls_def)
    qed
  qed
qed

lemma compact_calls_set:
  "c \<in> set (compact_calls s l) \<Longrightarrow>
     \<exists>x \<in> set l. c = Call_DeleteSnapshot (clusterID s) (nodeID s) (Index x)
                 \<or> c = Call_RemoveFinalDir (getSSEnv s (Index x))"
  by (auto simp: compact_calls_def)

text \<open>
  Claim C4. Let the log database list \<open>snaps\<close> for \<open>Compact removeUpTo\<close> (the snapshots
  with an index up to \<open>removeUpTo\<close>, oldest first). The calls \<open>Compact\<close> makes are a run
  of the compaction of the oldest \<open>length snaps - 3\<close> of them: for each one the log
  database record is deleted before its final directory is removed, and a failure ends
  the run. With at most 3 listed, no call is made and no error returned. A compaction
  that returns no error has removed exactly the oldest \<open>length snaps - 3\<close>. In every
  run, when the listing is strictly ascending, no call deletes the record or removes the
  directory of any of the last 3 listed snapshots.
\<close>

theorem Compact_retention:
  assumes list: "ListSnapshots st w (clusterID s) (nodeID s) removeUpTo = Inr snaps"
    and run: "Compact (traced_store st) s removeUpTo (w, t0) = (r, (w', t))"
  shows "\<exists>es. t = t0 @ es
      \<and> seq_run (compact_calls s (take (length snaps - 3) snaps)) es r
      \<and> (length snaps \<le> 3 \<longrightarrow> es = [] \<and> r = None)
      \<and> (r = None \<longrightarrow> es = map (\<lambda>c. (c, Done)) (compact_calls s (take (length snaps - 3) snaps)))
      \<and> (sorted_wrt (<) (map Index snaps) \<longrightarrow>
           (\<forall>ss \<in> set (drop (length snaps - 3) snaps).
              Call_DeleteSnapshot (clusterID s) (nodeID s) (Index ss) \<notin> fst ` set es \<and>
              Call_RemoveFinalDir (getSSEnv s (Index ss)) \<notin> fst ` set es))"
proof -
  let ?sel = "take (length snaps - 3) snaps"
  have "Compact_loop (traced_store st) s ?sel (w, t0) = (r, (w', t))"
  proof (cases "length snaps \<le> 3")
    case True
    with run list show ?thesis by (simp add: Compact_def snapshotsToKeep_def)
  next
    case False
    with run list show ?thesis by (simp add: Compact_def snapshotsToKeep_def Let_def)
  qed
  from Compact_loop_run[OF this]
  obtain es where es: "t = t0 @ es" and sr: "seq_run (compact_calls s ?sel) es r"
    by blast
  have small: "length snaps \<le> 3 \<longrightarrow> es = [] \<and> r = None"
  proof
    assume "length snaps \<le> 3"
    then have "?sel = []" by simp
    with sr show "es = [] \<and> r = None" by (simp add: compact_calls_def)
  qed
  have ok: "r = None \<longrightarrow> es = map (\<lambda>c. (c, Done)) (compact_calls s ?sel)"
  proof
    assume "r = None"
    with sr have "seq_run (compact_calls s ?sel) es None" by simp
    then show "es = map (\<lambda>c. (c, Done)) (compact_calls s ?sel)" by (rule seq_run_None)
  qed
  have keep: "sorted_wrt (<) (map Index snaps) \<longrightarrow>
           (\<forall>ss \<in> set (drop (length snaps - 3) snaps).
              Call_DeleteSnapshot (clusterID s) (nodeID s) (Index ss) \<notin> fst ` set es \<and>
              Call_RemoveFinalDir (getSSEnv s (Index ss)) \<notin> fst ` set es)"
  proof (intro impI ballI)
    fix ss
    assume srt: "sorted_wrt (<) (map Index snaps)"
      and ss: "ss \<in> set (drop (length snaps - 3) snaps)"
    have d: "distinct (map Index snaps)"
      using srt strict_sorted_iff by blast
    have sub: "fst ` set es \<subseteq> set (compact_calls s ?sel)"
      using seq_run_prefix[OF sr] set_mono_prefix by fastforce
    have ne: "\<And>x. x \<in> set ?sel \<Longrightarrow> Index x \<noteq> Index ss"
      using take_drop_disjoint[OF d _ ss] by blast
    show "Call_DeleteSnapshot (clusterID s) (nodeID s) (Index ss) \<notin> fst ` set es \<and>
          Call_RemoveFinalDir (getSSEnv s (Index ss)) \<notin> fst ` set es"
    proof (intro conjI notI)
      assume "Call_DeleteSnapshot (clusterID s) (nodeID s) (Index ss) \<in> fst ` set es"
      with sub have "Call_DeleteSnapshot (clusterID s) (nodeID s) (Index ss)
                       \<in> set (compact_calls s ?sel)" by (rule subsetD)
      from compact_calls_set[OF this] obtain x where "x \<in> set ?sel" "Index x = Index ss"
        by auto
      with ne show False by simp
    next
      assume "Call_RemoveFinalDir (getSSEnv s (Index ss)) \<in> fst ` set es"
      with sub have "Call_RemoveFinalDir (getSSEnv s (Index ss))
                       \<in> set (compact_calls s ?sel)" by (rule subsetD)
      from compact_calls_set[OF this] obtain x where x: "x \<in> set ?sel"
        "getSSEnv s (Index x) = getSSEnv s (Index ss)"
        by auto
      from getSSEnv_inj[OF x(2)] ne[OF x(1)] show False by simp
    qed
  qed
  show ?thesis
    by (rule exI[of _ es]) (use es sr small ok keep in simp)
qed

theorem Compact_retention_witness:
  "ListSnapshots listing_store () (clusterID example_snapshotter) (nodeID example_snapshotter) 50
     = Inr example_listing
   \<and> Compact (traced_store listing_store) example_snapshotter 50 ((), [])
     = (None, ((),
         [(Call_DeleteSnapshot 1 2 10, Done),
          (Call_RemoveFinalDir (getSSEnv example_snapshotter 10), Done),
          (Call_DeleteSnapshot 1 2 20, Done),
          (Call_RemoveFinalDir (getSSEnv example_snapshotter 20), Done)]))
   \<and> sorted_wrt (<) (map Index example_listing)
   \<and> compact_calls example_snapshotter (take (length example_listing - 3) example_listing)
     = [Call_DeleteSnapshot 1 2 10, Call_RemoveFinalDir (getSSEnv example_snapshotter 10),
        Call_DeleteSnapshot 1 2 20, Call_RemoveFinalDir (getSSEnv example_snapshotter 20)]"
proof -
  let ?t = "[(Call_DeleteSnapshot 1 2 10, Done),
          (Call_RemoveFinalDir (getSSEnv example_snapshotter 10), Done),
          (Call_DeleteSnapshot 1 2 20, Done),
          (Call_RemoveFinalDir (getSSEnv example_snapshotter 20), Done)]"
  have h1: "ListSnapshots listing_store () (clusterID example_snapshotter)
              (nodeID example_snapshotter) 50 = Inr example_listing"
    by (simp add: listing_store_def)
  have h2: "Compact (traced_store listing_store) example_snapshotter 50 ((), []) = (None, ((), ?t))"
    by (simp add: Compact_def snapshotsToKeep_def logged_def example_defs)
  have h3: "sorted_wrt (<) (map Index example_listing)"
    by (simp add: example_defs)
  from Compact_retention[OF h1 h2]
  have "\<exists>es. ?t = [] @ es \<and> es = map (\<lambda>c. (c, Done))
          (compact_calls example_snapshotter (take (length example_listing - 3) example_listing))"
    by auto
  then have "compact_calls example_snapshotter
               (take (length example_listing - 3) example_listing) = map fst ?t"
    by (simp add: comp_def)
  with h1 h2 h3 show ?thesis by simp
qed

subsection \<open>Shrink\<close>

lemma Shrink_loop_run:
  "Shrink_loop (traced_store st) s shrinkTo l (w, t0) = (r, (w', t)) \<Longrightarrow>
   \<forall>ss \<in> set l. Index ss \<le> shrinkTo \<Longrightarrow>
     \<exists>es r'. r = Ret r' \<and> t = t0 @ es \<and> seq_run (shrink_calls st s l) es r'"
proof (induction l arbitrary: w t0)
  case Nil
  then show ?case by (simp add: shrink_calls_def)
next
  case (Cons ss rest)
  let ?fp = "GetFilepath st (getSSEnv s (Index ss))"
  let ?sfp = "GetShrinkedFilepath st (getSSEnv s (Index ss))"
  obtain r1 w1 where 1: "ShrinkSnapshot st ?fp ?sfp w = (r1, w1)"
    by fastforce
  obtain r2 w2 where 2: "ReplaceSnapshotFile st ?sfp ?fp w1 = (r2, w2)"
    by fastforce
  have le: "\<not> shrinkTo < Index ss" and rest: "\<forall>ss \<in> set rest. Index ss \<le> shrinkTo"
    using Cons.prems(2) by auto
  show ?case
  proof (cases "Dummy ss")
    case True
    with Cons.prems(1) le
    have "Shrink_loop (traced_store st) s shrinkTo rest (w, t0) = (r, (w', t))"
      by simp
    from Cons.IH[OF this rest] True show ?thesis by (simp add: shrink_calls_def)
  next
    case False
    note nd = this
    show ?thesis
    proof (cases r1)
      case (Some e)
      with Cons.prems(1) 1 le nd show ?thesis
        by (auto simp: logged_def shrink_calls_def Let_def)
    next
      case None
      note r1 = this
      show ?thesis
      proof (cases r2)
        case (Some e)
        with Cons.prems(1) 1 2 r1 le nd show ?thesis
          by (auto simp: logged_def shrink_calls_def Let_def)
      next
        case None
        with Cons.prems(1) 1 2 r1 le nd have
          "Shrink_loop (traced_store st) s shrinkTo rest
             (w2, t0 @ [(Call_ShrinkSnapshot ?fp ?sfp, Done),
                        (Call_ReplaceSnapshotFile ?sfp ?fp, Done)]) = (r, (w', t))"
          by (simp add: logged_def Let_def)
        from Cons.IH[OF this rest] nd show ?thesis by (auto simp: shrink_calls_def)
      qed
    qed
  qed
qed

lemma Shrink_loop_success_bound:
  "Shrink_loop st s shrinkTo l w = (Ret None, w') \<Longrightarrow> \<forall>ss \<in> set l. Index ss \<le> shrinkTo"
proof (induction l arbitrary: w)
  case Nil
  then show ?case by simp
next
  case (Cons ss rest)
  then show ?case
    by (auto simp: Let_def split: if_splits prod.splits option.splits)
qed

text \<open>
  Claim C8. Let the log database list \<open>snaps\<close> for \<open>Shrink shrinkTo\<close>. A shrink that
  returns no error found every listed index at most \<open>shrinkTo\<close>. When every listed index
  is at most \<open>shrinkTo\<close> (what the listing promises), \<open>Shrink\<close> returns, and its calls are
  a run over exactly the listed snapshots that are not dummies, in their order: for each
  one the shrunk file is produced at the shrinked path, then the payload file is replaced
  by it; no call is made for a dummy. A failure ends the run; without one, every
  snapshot that is not a dummy has been processed.
\<close>

theorem Shrink_steps:
  assumes list: "ListSnapshots st w (clusterID s) (nodeID s) shrinkTo = Inr snaps"
    and run: "Shrink (traced_store st) s shrinkTo (w, t0) = (r, (w', t))"
  shows "(r = Ret None \<longrightarrow> (\<forall>ss \<in> set snaps. Index ss \<le> shrinkTo))
      \<and> ((\<forall>ss \<in> set snaps. Index ss \<le> shrinkTo) \<longrightarrow>
           (\<exists>es r'. r = Ret r' \<and> t = t0 @ es
              \<and> seq_run (shrink_calls st s snaps) es r'
              \<and> (r' = None \<longrightarrow> es = map (\<lambda>c. (c, Done)) (shrink_calls st s snaps))))"
proof -
  have loop: "Shrink_loop (traced_store st) s shrinkTo snaps (w, t0) = (r, (w', t))"
    using run list by (simp add: Shrink_def)
  have a: "r = Ret None \<longrightarrow> (\<forall>ss \<in> set snaps. Index ss \<le> shrinkTo)"
  proof
    assume "r = Ret None"
    with loop have "Shrink_loop (traced_store st) s shrinkTo snaps (w, t0) = (Ret None, (w', t))"
      by simp
    then show "\<forall>ss \<in> set snaps. Index ss \<le> shrinkTo"
      by (rule Shrink_loop_success_bound)
  qed
  have b: "(\<forall>ss \<in> set snaps. Index ss \<le> shrinkTo) \<longrightarrow>
           (\<exists>es r'. r = Ret r' \<and> t = t0 @ es
              \<and> seq_run (shrink_calls st s snaps) es r'
              \<and> (r' = None \<longrightarrow> es = map (\<lambda>c. (c, Done)) (shrink_calls st s snaps)))"
  proof
    assume "\<forall>ss \<in> set snaps. Index ss \<le> shrinkTo"
    from Shrink_loop_run[OF loop this] obtain es r' where
      "r = Ret r'" "t = t0 @ es" "seq_run (shrink_calls st s snaps) es r'" by blast
    then show "\<exists>es r'. r = Ret r' \<and> t = t0 @ es
              \<and> seq_run (shrink_calls st s snaps) es r'
              \<and> (r' = None \<longrightarrow> es = map (\<lambda>c. (c, Done)) (shrink_calls st s snaps))"
      using seq_run_None by blast
  qed
  from a b show ?thesis by (rule conjI)
qed

theorem Shrink_steps_witness:
  "ListSnapshots listing_store () (clusterID example_snapshotter) (nodeID example_snapshotter) 50
     = Inr example_listing
   \<and> Shrink (traced_store listing_store) example_snapshotter 50 ((), [])
     = (Ret None, ((),
         [(Call_ShrinkSnapshot ''snapshot-000000000000000a.gbsnap'' ''snapshot-000000000000000a.gbsnap.shrinked'', Done),
          (Call_ReplaceSnapshotFile ''snapshot-000000000000000a.gbsnap.shrinked'' ''snapshot-000000000000000a.gbsnap'', Done),
          (Call_ShrinkSnapshot ''snapshot-000000000000001e.gbsnap'' ''snapshot-000000000000001e.gbsnap.shrinked'', Done),
          (Call_ReplaceSnapshotFile ''snapshot-000000000000001e.gbsnap.shrinked'' ''snapshot-000000000000001e.gbsnap'', Done),
          (Call_ShrinkSnapshot ''snapshot-0000000000000028.gbsnap'' ''snapshot-0000000000000028.gbsnap.shrinked'', Done),
          (Call_ReplaceSnapshotFile ''snapshot-0000000000000028.gbsnap.shrinked'' ''snapshot-0000000000000028.gbsnap'', Done),
          (Call_ShrinkSnapshot ''snapshot-0000000000000032.gbsnap'' ''snapshot-0000000000000032.gbsnap.shrinked'', Done),
          (Call_ReplaceSnapshotFile ''snapshot-0000000000000032.gbsnap.shrinked'' ''snapshot-0000000000000032.gbsnap'', Done)]))
   \<and> list_all (\<lambda>ss. Index ss \<le> 50) example_listing
   \<and> length (filter (\<lambda>ss. \<not> Dummy ss) example_listing) = 4"
proof -
  let ?t = "[(Call_ShrinkSnapshot ''snapshot-000000000000000a.gbsnap'' ''snapshot-000000000000000a.gbsnap.shrinked'', Done),
          (Call_ReplaceSnapshotFile ''snapshot-000000000000000a.gbsnap.shrinked'' ''snapshot-000000000000000a.gbsnap'', Done),
          (Call_ShrinkSnapshot ''snapshot-000000000000001e.gbsnap'' ''snapshot-000000000000001e.gbsnap.shrinked'', Done),
          (Call_ReplaceSnapshotFile ''snapshot-000000000000001e.gbsnap.shrinked'' ''snapshot-000000000000001e.gbsnap'', Done),
          (Call_ShrinkSnapshot ''snapshot-0000000000000028.gbsnap'' ''snapshot-0000000000000028.gbsnap.shrinked'', Done),
          (Call_ReplaceSnapshotFile ''snapshot-0000000000000028.gbsnap.shrinked'' ''snapshot-0000000000000028.gbsnap'', Done),
          (Call_ShrinkSnapshot ''snapshot-0000000000000032.gbsnap'' ''snapshot-0000000000000032.gbsnap.shrinked'', Done),
          (Call_ReplaceSnapshotFile ''snapshot-0000000000000032.gbsnap.shrinked'' ''snapshot-0000000000000032.gbsnap'', Done)]"
  have h1: "ListSnapshots listing_store () (clusterID example_snapshotter)
              (nodeID example_snapshotter) 50 = Inr example_listing"
    by (simp add: listing_store_def)
  have h2: "Shrink (traced_store listing_store) example_snapshotter 50 ((), [])
              = (Ret None, ((), ?t))"
    by (simp add: Shrink_def logged_def Let_def example_defs)
  from Shrink_steps[OF h1 h2] have "\<forall>ss \<in> set example_listing. Index ss \<le> 50"
    by simp
  then have "list_all (\<lambda>ss. Index ss \<le> 50) example_listing"
    by (simp add: list_all_iff)
  moreover have "length (filter (\<lambda>ss. \<not> Dummy ss) example_listing) = 4"
    by (simp add: example_defs)
  ultimately show ?thesis using h1 h2 by simp
qed

subsection \<open>ProcessOrphans\<close>

lemmas pattern_defs = is_hex_digit_def SnapshotDirNameRe_spec_def scratch_dir_name_def
  GenSnapshotDirNameRe_spec_def RecvSnapshotDirNameRe_spec_def

lemma take_hd: "take k n = c # cs \<Longrightarrow> hd n = c"
  by (cases n; cases k) auto

lemma snapshot_hd: "SnapshotDirNameRe_spec n \<Longrightarrow> hd n = CHR ''s''"
  unfolding SnapshotDirNameRe_spec_def by (rule take_hd[of 9 n _ "''napshot-''"]) simp

lemma scratch_dir_hd: "scratch_dir_name (c # cs) n \<Longrightarrow> hd n = c"
  unfolding scratch_dir_name_def by (rule take_hd[of "length (c # cs)" n _ cs]) simp

lemma zombie_not_snapshot:
  "GenSnapshotDirNameRe_spec n \<or> RecvSnapshotDirNameRe_spec n \<Longrightarrow> \<not> SnapshotDirNameRe_spec n"
  unfolding GenSnapshotDirNameRe_spec_def RecvSnapshotDirNameRe_spec_def
  using snapshot_hd[of n] scratch_dir_hd[of _ _ n] by fastforce

lemma spec_patterns_simps [simp]:
  "SnapshotDirNameRe (spec_patterns st) = SnapshotDirNameRe_spec"
  "GenSnapshotDirNameRe (spec_patterns st) = GenSnapshotDirNameRe_spec"
  "RecvSnapshotDirNameRe (spec_patterns st) = RecvSnapshotDirNameRe_spec"
  "RemoveAll (spec_patterns st) = RemoveAll st"
  "SyncDir (spec_patterns st) = SyncDir st"
  "ReadDir (spec_patterns st) = ReadDir st"
  "HasFlagFile (spec_patterns st) = HasFlagFile st"
  "GetFlagFileContent (spec_patterns st) = GetFlagFileContent st"
  "ListSnapshots (spec_patterns st) = ListSnapshots st"
  "RemoveFinalDir (spec_patterns st) = RemoveFinalDir st"
  "RemoveFlagFile (spec_patterns st) = RemoveFlagFile st"
  "IsEmptySnapshot (spec_patterns st) = IsEmptySnapshot st"
  by (simp_all add: spec_patterns_def)

lemma isZombieDir_traced [simp]: "isZombieDir (traced_store st) n = isZombieDir st n"
  by (simp add: isZombieDir_def)

lemma isOrphanDir_traced [simp]:
  "isOrphanDir (traced_store st) s (w, t) n = isOrphanDir st s w n"
  by (simp add: isOrphanDir_def dirNameMatch_def)

lemma GetMostRecentSnapshot_traced [simp]:
  "GetMostRecentSnapshot (traced_store st) s (w, t) = GetMostRecentSnapshot st s w"
  by (simp add: GetMostRecentSnapshot_def)

lemma zombie_entry:
  assumes "IsDir fi" and "\<not> isOrphanDir st s w (Name fi)" and "isZombieDir st (Name fi)"
  shows "\<exists>r w1 es. ProcessOrphans_entry (traced_store st) s fi (w, t0) = (Ret r, (w1, t0 @ es))
           \<and> seq_run [Call_RemoveAll (filepath_Join (dir s) (Name fi)), Call_SyncDir (dir s)] es r"
proof -
  obtain r1 w1 where 1: "RemoveAll st (filepath_Join (dir s) (Name fi)) w = (r1, w1)"
    by fastforce
  obtain r2 w2 where 2: "SyncDir st (dir s) w1 = (r2, w2)"
    by fastforce
  show ?thesis
    using assms 1 2
    by (cases r1; cases r2) (simp_all add: ProcessOrphans_entry_def Let_def logged_def)
qed

lemma other_entry:
  assumes "\<not> IsDir fi \<or> (\<not> isOrphanDir st s w (Name fi) \<and> \<not> isZombieDir st (Name fi))"
  shows "ProcessOrphans_entry (traced_store st) s fi (w, t0) = (Ret None, (w, t0))"
  using assms by (auto simp: ProcessOrphans_entry_def Let_def)

lemma orphan_entry:
  assumes "IsDir fi" and "isOrphanDir st s w (Name fi)"
  shows "\<exists>r w1 es. ProcessOrphans_entry (traced_store st) s fi (w, t0) = (r, (w1, t0 @ es))
           \<and> filter (\<lambda>ev. is_fs_call (fst ev)) es = []"
proof -
  let ?fdir = "filepath_Join (dir s) (Name fi)"
  show ?thesis
  proof (cases "GetFlagFileContent st w ?fdir SnapshotFlagFilename")
    case (Inl e)
    with assms show ?thesis by (simp add: ProcessOrphans_entry_def Let_def)
  next
    case (Inr ss)
    note ss = this
    obtain r1 w1 where 1: "RemoveFinalDir st (getSSEnv s (Index ss)) w = (r1, w1)"
      by fastforce
    obtain r2 w2 where 2: "RemoveFlagFile st (getSSEnv s (Index ss)) w = (r2, w2)"
      by fastforce
    show ?thesis
      using assms ss 1 2
      by (cases r1; cases r2; cases "GetMostRecentSnapshot st s w")
         (simp_all add: ProcessOrphans_entry_def Let_def logged_def)
  qed
qed

lemma seq_run_two:
  "seq_run [c1, c2] es r \<Longrightarrow>
     (\<exists>e. es = [(c1, Failed e)] \<and> r = Some e)
     \<or> (\<exists>e. es = [(c1, Done), (c2, Failed e)] \<and> r = Some e)
     \<or> (es = [(c1, Done), (c2, Done)] \<and> r = None)"
proof -
  assume a: "seq_run [c1, c2] es r"
  show ?thesis
  proof (cases es)
    case Nil
    with a show ?thesis by simp
  next
    case (Cons ev es')
    obtain c st where ev: "ev = (c, st)" by (cases ev)
    show ?thesis
    proof (cases st)
      case Done
      note d = this
      show ?thesis
      proof (cases es')
        case Nil
        with a Cons ev d show ?thesis by simp
      next
        case (Cons ev2 es'')
        obtain c' st' where ev2: "ev2 = (c', st')" by (cases ev2)
        from a \<open>es = ev # es'\<close> ev d Cons ev2 show ?thesis
          by (cases st') auto
      qed
    next
      case (Failed e)
      with a Cons ev show ?thesis by simp
    next
      case (Panicked m)
      with a Cons ev show ?thesis by simp
    qed
  qed
qed

lemma zombie_calls_Cons:
  "zombie_calls st s (fi # rest) =
     (if IsDir fi \<and> isZombieDir st (Name fi)
      then Call_RemoveAll (filepath_Join (dir s) (Name fi)) # Call_SyncDir (dir s)
             # zombie_calls st s rest
      else zombie_calls st s rest)"
  by (simp add: zombie_calls_def)

lemma ProcessOrphans_loop_zombies:
  assumes disj: "\<And>n. isZombieDir st n \<Longrightarrow> \<not> SnapshotDirNameRe st n"
  shows "ProcessOrphans_loop (traced_store st) s files (w, t0) = (r, (w', t)) \<Longrightarrow>
     \<exists>es. t = t0 @ es
        \<and> prefix (map fst (filter (\<lambda>ev. is_fs_call (fst ev)) es)) (zombie_calls st s files)
        \<and> (r = Ret None \<longrightarrow>
             filter (\<lambda>ev. is_fs_call (fst ev)) es = map (\<lambda>c. (c, Done)) (zombie_calls st s files))"
proof (induction files arbitrary: w t0)
  case Nil
  then show ?case by (simp add: zombie_calls_def)
next
  case (Cons fi rest)
  let ?c1 = "Call_RemoveAll (filepath_Join (dir s) (Name fi))"
  let ?c2 = "Call_SyncDir (dir s)"
  consider (zombie) "IsDir fi" "isZombieDir st (Name fi)"
    | (orphan) "IsDir fi" "\<not> isZombieDir st (Name fi)" "isOrphanDir st s w (Name fi)"
    | (other) "\<not> IsDir fi \<or> (\<not> isOrphanDir st s w (Name fi) \<and> \<not> isZombieDir st (Name fi))"
    by blast
  then show ?case
  proof cases
    case zombie
    have no: "\<not> isOrphanDir st s w (Name fi)"
      using disj[OF zombie(2)] by (simp add: isOrphanDir_def dirNameMatch_def)
    from zombie_entry[OF zombie(1) no zombie(2)] obtain r1 w1 es1 where
      e: "ProcessOrphans_entry (traced_store st) s fi (w, t0) = (Ret r1, (w1, t0 @ es1))"
      and sr: "seq_run [?c1, ?c2] es1 r1" by blast
    have zc: "zombie_calls st s (fi # rest) = ?c1 # ?c2 # zombie_calls st s rest"
      using zombie by (simp add: zombie_calls_Cons)
    from seq_run_two[OF sr] show ?thesis
    proof (elim disjE exE conjE)
      fix e1 assume es1: "es1 = [(?c1, Failed e1)]" and r1: "r1 = Some e1"
      with Cons.prems e have "t = t0 @ es1" "r = Ret (Some e1)" by simp_all
      with es1 zc show ?thesis by simp
    next
      fix e1 assume es1: "es1 = [(?c1, Done), (?c2, Failed e1)]" and r1: "r1 = Some e1"
      with Cons.prems e have "t = t0 @ es1" "r = Ret (Some e1)" by simp_all
      with es1 zc show ?thesis by simp
    next
      assume es1: "es1 = [(?c1, Done), (?c2, Done)]" and r1: "r1 = None"
      with Cons.prems e
      have "ProcessOrphans_loop (traced_store st) s rest (w1, t0 @ es1) = (r, (w', t))"
        by simp
      from Cons.IH[OF this] obtain es2 where
        t: "t = (t0 @ es1) @ es2"
        and p: "prefix (map fst (filter (\<lambda>ev. is_fs_call (fst ev)) es2)) (zombie_calls st s rest)"
        and ok: "r = Ret None \<longrightarrow>
             filter (\<lambda>ev. is_fs_call (fst ev)) es2 = map (\<lambda>c. (c, Done)) (zombie_calls st s rest)"
        by blast
      show ?thesis
        by (rule exI[of _ "es1 @ es2"]) (use t p ok es1 zc in simp)
    qed
  next
    case orphan
    from orphan_entry[OF orphan(1) orphan(3)] obtain r1 w1 es1 where
      e: "ProcessOrphans_entry (traced_store st) s fi (w, t0) = (r1, (w1, t0 @ es1))"
      and f: "filter (\<lambda>ev. is_fs_call (fst ev)) es1 = []" by blast
    have zc: "zombie_calls st s (fi # rest) = zombie_calls st s rest"
      using orphan by (simp add: zombie_calls_Cons)
    show ?thesis
    proof (cases "r1 = Ret None")
      case True
      with Cons.prems e
      have "ProcessOrphans_loop (traced_store st) s rest (w1, t0 @ es1) = (r, (w', t))"
        by simp
      from Cons.IH[OF this] obtain es2 where
        t: "t = (t0 @ es1) @ es2"
        and p: "prefix (map fst (filter (\<lambda>ev. is_fs_call (fst ev)) es2)) (zombie_calls st s rest)"
        and ok: "r = Ret None \<longrightarrow>
             filter (\<lambda>ev. is_fs_call (fst ev)) es2 = map (\<lambda>c. (c, Done)) (zombie_calls st s rest)"
        by blast
      show ?thesis
        by (rule exI[of _ "es1 @ es2"]) (use t p ok f zc in simp)
    next
      case False
      with Cons.prems e have "r = r1" "t = t0 @ es1"
        by (auto split: result.splits option.splits)
      with False f zc show ?thesis by simp
    qed
  next
    case other
    have zc: "zombie_calls st s (fi # rest) = zombie_calls st s rest"
      using other by (auto simp: zombie_calls_Cons)
    from Cons.prems other_entry[OF other, of t0]
    have "ProcessOrphans_loop (traced_store st) s rest (w, t0) = (r, (w', t))"
      by simp
    from Cons.IH[OF this] zc show ?thesis by simp
  qed
qed







text \<open>
  Claim C6. With the directory name patterns of the specification: processing a
  subdirectory whose name matches the generating or the receiving pattern removes it
  recursively and then fsyncs the snapshot root, stopping when the removal fails;
  processing an entry whose name matches none of the three patterns makes no call and
  leaves the world as it is. Over a whole run of \<open>ProcessOrphans\<close>, the recursive
  removals and fsyncs made are, in order, a prefix of those of the listed zombie
  subdirectories (so nothing else is ever removed recursively), and all of them when the
  run returns no error.
\<close>

theorem zombie_directories_removed:
  "(IsDir fi \<and> (GenSnapshotDirNameRe_spec (Name fi) \<or> RecvSnapshotDirNameRe_spec (Name fi)) \<longrightarrow>
      (\<exists>r1 w1 es. ProcessOrphans_entry (traced_store (spec_patterns st)) s fi (w, t0)
                     = (Ret r1, (w1, t0 @ es))
         \<and> seq_run [Call_RemoveAll (filepath_Join (dir s) (Name fi)), Call_SyncDir (dir s)] es r1))
 \<and> (\<not> SnapshotDirNameRe_spec (Name fi) \<and> \<not> GenSnapshotDirNameRe_spec (Name fi)
      \<and> \<not> RecvSnapshotDirNameRe_spec (Name fi) \<longrightarrow>
      ProcessOrphans_entry (traced_store (spec_patterns st)) s fi (w, t0) = (Ret None, (w, t0)))
 \<and> (ReadDir st w (dir s) = Inr files
      \<and> ProcessOrphans (traced_store (spec_patterns st)) s (w, t0) = (r, (w', t)) \<longrightarrow>
      (\<exists>es. t = t0 @ es
         \<and> prefix (map fst (filter (\<lambda>ev. is_fs_call (fst ev)) es))
                  (zombie_calls (spec_patterns st) s files)
         \<and> (r = Ret None \<longrightarrow>
              filter (\<lambda>ev. is_fs_call (fst ev)) es
                = map (\<lambda>c. (c, Done)) (zombie_calls (spec_patterns st) s files))))"
proof (intro conjI impI)
  assume a: "IsDir fi \<and> (GenSnapshotDirNameRe_spec (Name fi) \<or> RecvSnapshotDirNameRe_spec (Name fi))"
  then have z: "isZombieDir (spec_patterns st) (Name fi)"
    by (simp add: isZombieDir_def)
  from a zombie_not_snapshot have no: "\<not> isOrphanDir (spec_patterns st) s w (Name fi)"
    by (simp add: isOrphanDir_def dirNameMatch_def)
  from a have d: "IsDir fi" by simp
  show "\<exists>r1 w1 es. ProcessOrphans_entry (traced_store (spec_patterns st)) s fi (w, t0)
                     = (Ret r1, (w1, t0 @ es))
         \<and> seq_run [Call_RemoveAll (filepath_Join (dir s) (Name fi)), Call_SyncDir (dir s)] es r1"
    by (rule zombie_entry[OF d no z])
next
  assume "\<not> SnapshotDirNameRe_spec (Name fi) \<and> \<not> GenSnapshotDirNameRe_spec (Name fi)
      \<and> \<not> RecvSnapshotDirNameRe_spec (Name fi)"
  then have "\<not> isOrphanDir (spec_patterns st) s w (Name fi) \<and> \<not> isZombieDir (spec_patterns st) (Name fi)"
    by (simp add: isOrphanDir_def dirNameMatch_def isZombieDir_def)
  then have "\<not> IsDir fi \<or> (\<not> isOrphanDir (spec_patterns st) s w (Name fi)
               \<and> \<not> isZombieDir (spec_patterns st) (Name fi))"
    by simp
  then show "ProcessOrphans_entry (traced_store (spec_patterns st)) s fi (w, t0) = (Ret None, (w, t0))"
    by (rule other_entry)
next
  assume a: "ReadDir st w (dir s) = Inr files
      \<and> ProcessOrphans (traced_store (spec_patterns st)) s (w, t0) = (r, (w', t))"
  then have rd: "ReadDir st w (dir s) = Inr files"
    and run: "ProcessOrphans (traced_store (spec_patterns st)) s (w, t0) = (r, (w', t))"
    by simp_all
  from run have loop:
    "ProcessOrphans_loop (traced_store (spec_patterns st)) s files (w, t0) = (r, (w', t))"
    by (simp add: ProcessOrphans_def rd)
  have disj: "\<And>n. isZombieDir (spec_patterns st) n \<Longrightarrow> \<not> SnapshotDirNameRe (spec_patterns st) n"
    using zombie_not_snapshot by (simp add: isZombieDir_def)
  from ProcessOrphans_loop_zombies[OF disj loop]
  show "\<exists>es. t = t0 @ es
         \<and> prefix (map fst (filter (\<lambda>ev. is_fs_call (fst ev)) es))
                  (zombie_calls (spec_patterns st) s files)
         \<and> (r = Ret None \<longrightarrow>
              filter (\<lambda>ev. is_fs_call (fst ev)) es
                = map (\<lambda>c. (c, Done)) (zombie_calls (spec_patterns st) s files))"
    by simp
qed

lemmas orphan_eval =
  ProcessOrphans_def ProcessOrphans_entry_def isOrphanDir_def dirNameMatch_def isZombieDir_def
  pattern_defs GetMostRecentSnapshot_def orphan_store_def example_dir_def
  example_defs spec_patterns_def logged_def Let_def filepath_Join_def SnapshotFlagFilename_def
  math_MaxUint64_def

theorem zombie_directories_removed_witness:
  "ReadDir orphan_store () (dir example_snapshotter) = Inr example_dir
   \<and> ProcessOrphans (traced_store (spec_patterns orphan_store)) example_snapshotter ((), [])
     = (Ret None, ((),
         [(Call_RemoveFinalDir (getSSEnv example_snapshotter 20), Done),
          (Call_RemoveAll ''/data/generating-0000000000000064-abcd'', Done),
          (Call_SyncDir ''/data'', Done),
          (Call_RemoveAll ''/data/receiving-0000000000000064-1'', Done),
          (Call_SyncDir ''/data'', Done)]))
   \<and> zombie_calls (spec_patterns orphan_store) example_snapshotter example_dir
     = [Call_RemoveAll ''/data/generating-0000000000000064-abcd'', Call_SyncDir ''/data'',
        Call_RemoveAll ''/data/receiving-0000000000000064-1'', Call_SyncDir ''/data'']"
proof -
  let ?t = "[(Call_RemoveFinalDir (getSSEnv example_snapshotter 20), Done),
          (Call_RemoveAll ''/data/generating-0000000000000064-abcd'', Done),
          (Call_SyncDir ''/data'', Done),
          (Call_RemoveAll ''/data/receiving-0000000000000064-1'', Done),
          (Call_SyncDir ''/data'', Done)]"
  have h1: "ReadDir orphan_store () (dir example_snapshotter) = Inr example_dir"
    by (simp add: orphan_store_def)
  have h2: "ProcessOrphans (traced_store (spec_patterns orphan_store)) example_snapshotter ((), [])
     = (Ret None, ((), ?t))"
    by (simp add: orphan_eval)
  have zc: "zombie_calls (spec_patterns orphan_store) example_snapshotter example_dir
     = [Call_RemoveAll ''/data/generating-0000000000000064-abcd'', Call_SyncDir ''/data'',
        Call_RemoveAll ''/data/receiving-0000000000000064-1'', Call_SyncDir ''/data'']"
    by (simp add: zombie_calls_def orphan_eval)
  from zombie_directories_removed[of _ orphan_store example_snapshotter "()" "[]" example_dir
         "Ret None" "()" ?t] h1 h2
  have "\<exists>es. ?t = [] @ es \<and> filter (\<lambda>ev. is_fs_call (fst ev)) es
          = map (\<lambda>c. (c, Done)) (zombie_calls (spec_patterns orphan_store) example_snapshotter example_dir)"
    by blast
  then have "filter (\<lambda>ev. is_fs_call (fst ev)) ?t
          = map (\<lambda>c. (c, Done)) [Call_RemoveAll ''/data/generating-0000000000000064-abcd'',
               Call_SyncDir ''/data'', Call_RemoveAll ''/data/receiving-0000000000000064-1'',
               Call_SyncDir ''/data'']"
    unfolding zc by simp
  with h1 h2 zc show ?thesis by simp
qed

subsection \<open>Load, Stream, Save\<close>

lemma traced_snapio_simps [simp]:
  "StreamSnapshot (traced_snapio io) = (\<lambda>ct meta. logged Call_StreamSnapshot (StreamSnapshot io ct meta))"
  "sink_Stop (traced_snapio io) = logged_unit Call_sink_Stop (sink_Stop io)"
  "chunk_Close (traced_snapio io) = (\<lambda>ct. logged Call_chunk_Close (chunk_Close io ct))"
  "NewSnapshotWriter (traced_snapio io) =
     (\<lambda>fp v ct. logged (Call_NewSnapshotWriter fp) (NewSnapshotWriter io fp v ct))"
  "SaveSnapshot (traced_snapio io) =
     (\<lambda>meta ct session. logged_val Call_SaveSnapshot (SaveSnapshot io meta ct session))"
  "PrepareFiles (traced_snapio io) = (\<lambda>a b. logged_val (Call_PrepareFiles a b) (PrepareFiles io a b))"
  "writer_Close (traced_snapio io) = (\<lambda>ct. logged Call_writer_Close (writer_Close io ct))"
  "BytesWritten (traced_snapio io) = (\<lambda>wt. BytesWritten io (fst wt))"
  "GetPayloadChecksum (traced_snapio io) = (\<lambda>wt. GetPayloadChecksum io (fst wt))"
  "GetPayloadSize (traced_snapio io) = (\<lambda>wt. GetPayloadSize io (fst wt))"
  "SnapshotHeaderSize (traced_snapio io) = SnapshotHeaderSize io"
  "SnapshotVersion (traced_snapio io) = SnapshotVersion io"
  "NewSnapshotReader (traced_snapio io) =
     (\<lambda>fp. logged (Call_NewSnapshotReader fp) (NewSnapshotReader io fp))"
  "GetHeader (traced_snapio io) = logged_val Call_GetHeader (GetHeader io)"
  "reader_Close (traced_snapio io) = logged_unit Call_reader_Close (reader_Close io)"
  "decompressor_Close (traced_snapio io) =
     (\<lambda>ct. logged Call_decompressor_Close (decompressor_Close io ct))"
  "LoadSessions (traced_snapio io) = (\<lambda>ct v. logged (Call_LoadSessions v) (LoadSessions io ct v))"
  "RecoverFromSnapshot (traced_snapio io) =
     (\<lambda>ct fs. logged (Call_RecoverFromSnapshot fs) (RecoverFromSnapshot io ct fs))"
  "ValidatePayload (traced_snapio io) = (\<lambda>h. logged_res (Call_ValidatePayload h) (ValidatePayload io h))"
  by (simp_all add: traced_snapio_def)

lemma checked_snapio_simps [simp]:
  "NewSnapshotReader (checked_snapio p io) = NewSnapshotReader io"
  "GetHeader (checked_snapio p io) = GetHeader io"
  "reader_Close (checked_snapio p io) = reader_Close io"
  "decompressor_Close (checked_snapio p io) = decompressor_Close io"
  "LoadSessions (checked_snapio p io) = LoadSessions io"
  "RecoverFromSnapshot (checked_snapio p io) = RecoverFromSnapshot io"
  "ValidatePayload (checked_snapio p io) = ValidatePayload_spec p"
  by (simp_all add: checked_snapio_def)

lemma Load_reaches_validation:
  assumes reader: "NewSnapshotReader io fp w = (None, w1)"
    and header: "GetHeader io w1 = (Inr header, w2)"
    and ct: "compressionType (header_CompressionType header) = Ret ct"
    and sessions: "LoadSessions io ct (Version header) w2 = (None, w3)"
    and recover: "RecoverFromSnapshot io ct fs w3 = (None, w4)"
    and close: "decompressor_Close io ct w4 = (cerr, w5)"
  shows "Load (traced_snapio (checked_snapio payload_sum io)) fp fs (w, t0) =
          (if payload_sum w4 = PayloadChecksum header then
             (Ret cerr,
              (w5, t0 @ [(Call_NewSnapshotReader fp, Done), (Call_GetHeader, Done),
                         (Call_LoadSessions (Version header), Done),
                         (Call_RecoverFromSnapshot fs, Done),
                         (Call_ValidatePayload header, Done),
                         (Call_decompressor_Close, status_of cerr)]))
           else
             (Panic ''corrupted snapshot payload'',
              (w5, t0 @ [(Call_NewSnapshotReader fp, Done), (Call_GetHeader, Done),
                         (Call_LoadSessions (Version header), Done),
                         (Call_RecoverFromSnapshot fs, Done),
                         (Call_ValidatePayload header, Panicked ''corrupted snapshot payload''),
                         (Call_decompressor_Close, status_of cerr)])))"
  using assms
  by (simp add: Load_def Load_deferred_def logged_def logged_val_def logged_res_def
        ValidatePayload_spec_def Let_def logged_eq status_of_def split: option.splits)

lemma Load_success_validated:
  assumes "Load (traced_snapio (checked_snapio payload_sum io)) fp fs (w, t0) = (Ret None, (w', t))"
  shows "\<exists>header ct w3 w4.
           RecoverFromSnapshot io ct fs w3 = (None, w4)
         \<and> payload_sum w4 = PayloadChecksum header
         \<and> t = t0 @ [(Call_NewSnapshotReader fp, Done), (Call_GetHeader, Done),
                      (Call_LoadSessions (Version header), Done),
                      (Call_RecoverFromSnapshot fs, Done),
                      (Call_ValidatePayload header, Done),
                      (Call_decompressor_Close, Done)]"
proof -
  obtain r1 w1 where 1: "NewSnapshotReader io fp w = (r1, w1)" by fastforce
  obtain r2 w2 where 2: "GetHeader io w1 = (r2, w2)" by fastforce
  show ?thesis
  proof (cases r1)
    case (Some e)
    with assms 1 show ?thesis by (simp add: Load_def logged_def)
  next
    case None
    note r1 = this
    show ?thesis
    proof (cases r2)
      case (Inl e)
      with assms 1 2 r1 show ?thesis by (simp add: Load_def logged_def logged_val_def)
    next
      case (Inr header)
      note r2 = this
      show ?thesis
      proof (cases "compressionType (header_CompressionType header)")
        case (Panic m)
        with assms 1 2 r1 r2 show ?thesis by (simp add: Load_def logged_def logged_val_def)
      next
        case (Ret ct)
        note ct = this
        obtain r3 w3 where 3: "LoadSessions io ct (Version header) w2 = (r3, w3)" by fastforce
        obtain r4 w4 where 4: "RecoverFromSnapshot io ct fs w3 = (r4, w4)" by fastforce
        obtain c3 v3 where c3: "decompressor_Close io ct w3 = (c3, v3)" by fastforce
        obtain c4 v4 where c4: "decompressor_Close io ct w4 = (c4, v4)" by fastforce
        show ?thesis
          using assms 1 2 r1 r2 ct 3 4 c3 c4
          by (cases r3; cases r4; cases c3; cases c4;
              cases "payload_sum w4 = PayloadChecksum header")
             (auto simp: Load_def Load_deferred_def logged_def logged_val_def logged_res_def
                ValidatePayload_spec_def Let_def)
      qed
    qed
  qed
qed

text \<open>
  Claim C1. With the payload check of the specification in place. When a load gets as
  far as the state machine's recover step and that step ends well, the next call
  validates the payload against the header that was read; then the deferred close of
  the decompressor runs; the load returns what the close returns when the checksum the
  reader computed equals the header's, and panics when the two differ. A load that
  returns no error has made the calls open, header, sessions, recover, validate and
  close in this order, all ending well, and the checksum matched after the recover
  step. So no load returns success on a checksum mismatch.
\<close>

theorem Load_validates_payload:
  "(NewSnapshotReader io fp w = (None, w1) \<and> GetHeader io w1 = (Inr header, w2)
      \<and> compressionType (header_CompressionType header) = Ret ct
      \<and> LoadSessions io ct (Version header) w2 = (None, w3)
      \<and> RecoverFromSnapshot io ct fs w3 = (None, w4)
      \<and> decompressor_Close io ct w4 = (cerr, w5)
    \<longrightarrow> Load (traced_snapio (checked_snapio payload_sum io)) fp fs (w, t0) =
          (if payload_sum w4 = PayloadChecksum header then
             (Ret cerr,
              (w5, t0 @ [(Call_NewSnapshotReader fp, Done), (Call_GetHeader, Done),
                         (Call_LoadSessions (Version header), Done),
                         (Call_RecoverFromSnapshot fs, Done),
                         (Call_ValidatePayload header, Done),
                         (Call_decompressor_Close, status_of cerr)]))
           else
             (Panic ''corrupted snapshot payload'',
              (w5, t0 @ [(Call_NewSnapshotReader fp, Done), (Call_GetHeader, Done),
                         (Call_LoadSessions (Version header), Done),
                         (Call_RecoverFromSnapshot fs, Done),
                         (Call_ValidatePayload header, Panicked ''corrupted snapshot payload''),
                         (Call_decompressor_Close, status_of cerr)]))))
 \<and> (Load (traced_snapio (checked_snapio payload_sum io)) fp fs (w, t0) = (Ret None, (w', t))
    \<longrightarrow> (\<exists>h c v3 v4.
           RecoverFromSnapshot io c fs v3 = (None, v4)
         \<and> payload_sum v4 = PayloadChecksum h
         \<and> t = t0 @ [(Call_NewSnapshotReader fp, Done), (Call_GetHeader, Done),
                      (Call_LoadSessions (Version h), Done),
                      (Call_RecoverFromSnapshot fs, Done),
                      (Call_ValidatePayload h, Done),
                      (Call_decompressor_Close, Done)]))"
proof (intro conjI impI)
  assume a: "NewSnapshotReader io fp w = (None, w1) \<and> GetHeader io w1 = (Inr header, w2)
      \<and> compressionType (header_CompressionType header) = Ret ct
      \<and> LoadSessions io ct (Version header) w2 = (None, w3)
      \<and> RecoverFromSnapshot io ct fs w3 = (None, w4)
      \<and> decompressor_Close io ct w4 = (cerr, w5)"
  then have 1: "NewSnapshotReader io fp w = (None, w1)"
    and 2: "GetHeader io w1 = (Inr header, w2)"
    and 3: "compressionType (header_CompressionType header) = Ret ct"
    and 4: "LoadSessions io ct (Version header) w2 = (None, w3)"
    and 5: "RecoverFromSnapshot io ct fs w3 = (None, w4)"
    and 6: "decompressor_Close io ct w4 = (cerr, w5)"
    by simp_all
  show "Load (traced_snapio (checked_snapio payload_sum io)) fp fs (w, t0) =
          (if payload_sum w4 = PayloadChecksum header then
             (Ret cerr,
              (w5, t0 @ [(Call_NewSnapshotReader fp, Done), (Call_GetHeader, Done),
                         (Call_LoadSessions (Version header), Done),
                         (Call_RecoverFromSnapshot fs, Done),
                         (Call_ValidatePayload header, Done),
                         (Call_decompressor_Close, status_of cerr)]))
           else
             (Panic ''corrupted snapshot payload'',
              (w5, t0 @ [(Call_NewSnapshotReader fp, Done), (Call_GetHeader, Done),
                         (Call_LoadSessions (Version header), Done),
                         (Call_RecoverFromSnapshot fs, Done),
                         (Call_ValidatePayload header, Panicked ''corrupted snapshot payload''),
                         (Call_decompressor_Close, status_of cerr)])))"
    by (rule Load_reaches_validation[OF 1 2 3 4 5 6])
next
  assume "Load (traced_snapio (checked_snapio payload_sum io)) fp fs (w, t0) = (Ret None, (w', t))"
  then show "\<exists>h c v3 v4.
           RecoverFromSnapshot io c fs v3 = (None, v4)
         \<and> payload_sum v4 = PayloadChecksum h
         \<and> t = t0 @ [(Call_NewSnapshotReader fp, Done), (Call_GetHeader, Done),
                      (Call_LoadSessions (Version h), Done),
                      (Call_RecoverFromSnapshot fs, Done),
                      (Call_ValidatePayload h, Done),
                      (Call_decompressor_Close, Done)]"
    by (rule Load_success_validated)
qed

text \<open>A reader whose world is the checksum it has computed over the payload.\<close>

theorem Load_validates_payload_witness:
  "Load (traced_snapio (checked_snapio (\<lambda>w. w) idle_snapio)) ''f'' [] ([9, 9, 9, 9], [])
     = (Panic ''corrupted snapshot payload'',
        ([9, 9, 9, 9],
         [(Call_NewSnapshotReader ''f'', Done), (Call_GetHeader, Done),
          (Call_LoadSessions 2, Done), (Call_RecoverFromSnapshot [], Done),
          (Call_ValidatePayload example_header, Panicked ''corrupted snapshot payload''),
          (Call_decompressor_Close, Done)]))
   \<and> Load (traced_snapio (checked_snapio (\<lambda>w. w) idle_snapio)) ''f'' [] ([1, 2, 3, 4], [])
     = (Ret None,
        ([1, 2, 3, 4],
         [(Call_NewSnapshotReader ''f'', Done), (Call_GetHeader, Done),
          (Call_LoadSessions 2, Done), (Call_RecoverFromSnapshot [], Done),
          (Call_ValidatePayload example_header, Done),
          (Call_decompressor_Close, Done)]))"
proof -
  have h: "NewSnapshotReader idle_snapio ''f'' w = (None, w)
      \<and> GetHeader idle_snapio w = (Inr example_header, w)
      \<and> compressionType (header_CompressionType example_header) = Ret dio_NoCompression
      \<and> LoadSessions idle_snapio dio_NoCompression (Version example_header) w = (None, w)
      \<and> RecoverFromSnapshot idle_snapio dio_NoCompression [] w = (None, w)
      \<and> decompressor_Close idle_snapio dio_NoCompression w = (None, w)" for w :: bytes
    by (simp add: idle_snapio_def example_header_def)
  from Load_validates_payload[of idle_snapio "''f''" "[9, 9, 9, 9]" "[9, 9, 9, 9]" example_header
         "[9, 9, 9, 9]" dio_NoCompression "[9, 9, 9, 9]" "[]" "[9, 9, 9, 9]" None "[9, 9, 9, 9]"
         "\<lambda>w. w" "[]"] h[of "[9, 9, 9, 9]"]
  have bad: "Load (traced_snapio (checked_snapio (\<lambda>w. w) idle_snapio)) ''f'' [] ([9, 9, 9, 9], [])
     = (Panic ''corrupted snapshot payload'',
        ([9, 9, 9, 9],
         [(Call_NewSnapshotReader ''f'', Done), (Call_GetHeader, Done),
          (Call_LoadSessions 2, Done), (Call_RecoverFromSnapshot [], Done),
          (Call_ValidatePayload example_header, Panicked ''corrupted snapshot payload''),
          (Call_decompressor_Close, Done)]))"
    by (simp add: example_header_def status_of_def)
  from Load_validates_payload[of idle_snapio "''f''" "[1, 2, 3, 4]" "[1, 2, 3, 4]" example_header
         "[1, 2, 3, 4]" dio_NoCompression "[1, 2, 3, 4]" "[]" "[1, 2, 3, 4]" None "[1, 2, 3, 4]"
         "\<lambda>w. w" "[]"] h[of "[1, 2, 3, 4]"]
  have good: "Load (traced_snapio (checked_snapio (\<lambda>w. w) idle_snapio)) ''f'' [] ([1, 2, 3, 4], [])
     = (Ret None,
        ([1, 2, 3, 4],
         [(Call_NewSnapshotReader ''f'', Done), (Call_GetHeader, Done),
          (Call_LoadSessions 2, Done), (Call_RecoverFromSnapshot [], Done),
          (Call_ValidatePayload example_header, Done),
          (Call_decompressor_Close, Done)]))"
    by (simp add: example_header_def status_of_def)
  from bad good show ?thesis by (rule conjI)
qed

lemma Stream_StreamSnapshot_error_calls_Stop:
  assumes "compressionType (CompressionType meta) = Ret ct"
    and "StreamSnapshot io ct meta w = (Some e, w1)"
  shows "Stream (traced_snapio io) meta (w, t0)
           = (Ret (Some e),
              (sink_Stop io w1, t0 @ [(Call_StreamSnapshot, Failed e), (Call_sink_Stop, Done)]))"
  using assms by (simp add: Stream_def logged_def logged_unit_def)

text \<open>
  Claim C7, at the error it names last. When the state machine's \<open>StreamSnapshot\<close> ends
  well and closing the compressing writer fails, \<open>Stream\<close> returns the error of the
  close after two calls, \<open>StreamSnapshot\<close> and the close: the sink is not stopped. (When
  \<open>StreamSnapshot\<close> itself fails, the sink is stopped before the error is returned, as
  the lemma before this one shows.)
\<close>

theorem Stream_Close_error_without_Stop:
  assumes "compressionType (CompressionType meta) = Ret ct"
    and "StreamSnapshot io ct meta w = (None, w1)"
    and "chunk_Close io ct w1 = (Some e, w2)"
  shows "Stream (traced_snapio io) meta (w, t0)
           = (Ret (Some e),
              (w2, t0 @ [(Call_StreamSnapshot, Done), (Call_chunk_Close, Failed e)]))"
  using assms by (simp add: Stream_def logged_def)

theorem Stream_Close_error_without_Stop_witness:
  "compressionType (CompressionType example_meta) = Ret dio_Snappy
   \<and> StreamSnapshot (idle_snapio\<lparr>chunk_Close := (\<lambda>ct w. (Some (OtherError ''closed''), w))\<rparr>)
        dio_Snappy example_meta () = (None, ())
   \<and> chunk_Close (idle_snapio\<lparr>chunk_Close := (\<lambda>ct w. (Some (OtherError ''closed''), w))\<rparr>)
        dio_Snappy () = (Some (OtherError ''closed''), ())
   \<and> Stream (traced_snapio
        (idle_snapio\<lparr>chunk_Close := (\<lambda>ct w. (Some (OtherError ''closed''), w))\<rparr>))
        example_meta ((), [])
       = (Ret (Some (OtherError ''closed'')),
          ((), [(Call_StreamSnapshot, Done), (Call_chunk_Close, Failed (OtherError ''closed''))]))"
proof -
  let ?io = "idle_snapio\<lparr>chunk_Close := (\<lambda>ct w. (Some (OtherError ''closed''), w))\<rparr> :: unit snapio"
  have h1: "compressionType (CompressionType example_meta) = Ret dio_Snappy"
    by (simp add: example_meta_def)
  have h2: "StreamSnapshot ?io dio_Snappy example_meta () = (None, ())"
    by (simp add: idle_snapio_def)
  have h3: "chunk_Close ?io dio_Snappy () = (Some (OtherError ''closed''), ())"
    by simp
  from Stream_Close_error_without_Stop[OF h1 h2 h3, of "[]"] h1 h2 h3
  show ?thesis by simp
qed

text \<open>
  Claim C10. When the request is an exported snapshot and its path is empty, \<open>Commit\<close>
  and \<open>Save\<close> panic with the message of \<open>getCustomSSEnv\<close>: no error is returned, and
  the world is as it was (no call has been made).
\<close>

theorem exported_empty_path_panics:
  assumes "IsExportedSnapshot req" and "Path req = []"
  shows "Commit st s snapshot req w = (Panic ''Path is empty when exporting snapshot'', w)
       \<and> Save st io s (meta\<lparr>Request := req\<rparr>) w
           = (Panic ''Path is empty when exporting snapshot'', w)"
  using assms by (simp add: Commit_def Save_def getCustomSSEnv_def commit_meta_def)

theorem exported_empty_path_panics_witness:
  "IsExportedSnapshot \<lparr>IsExportedSnapshot = True, Path = []\<rparr>
   \<and> Path \<lparr>IsExportedSnapshot = True, Path = []\<rparr> = []
   \<and> Commit (traced_store idle_store) example_snapshotter (example_snapshot 20 False)
        \<lparr>IsExportedSnapshot = True, Path = []\<rparr> ((), [])
       = (Panic ''Path is empty when exporting snapshot'', ((), []))
   \<and> Save (traced_store idle_store) (traced_snapio idle_snapio) example_snapshotter
        (example_meta\<lparr>Request := \<lparr>IsExportedSnapshot = True, Path = []\<rparr>\<rparr>) ((), [])
       = (Panic ''Path is empty when exporting snapshot'', ((), []))"
proof -
  have h1: "IsExportedSnapshot \<lparr>IsExportedSnapshot = True, Path = []\<rparr>" by simp
  have h2: "Path \<lparr>IsExportedSnapshot = True, Path = []\<rparr> = []" by simp
  from exported_empty_path_panics[OF h1 h2, of "traced_store idle_store" example_snapshotter
         "example_snapshot 20 False" "((), [])" "traced_snapio idle_snapio" example_meta]
  show ?thesis by simp
qed



subsection \<open>Commit on the file system of the specification\<close>

lemma fs_store_simps [simp]:
  "SaveSSMetadata (fs_store st) = save_metadata_spec"
  "FinalizeSnapshot (fs_store st) = finalize_spec"
  "RemoveFlagFile (fs_store st) = remove_flag_file_spec"
  "SaveSnapshots (fs_store st) = save_snapshots_spec"
  by (simp_all add: fs_store_def)

text \<open>
  Claim C3 as it is written fails on the file system of the specification: with the
  snapshot at index 30 committed and a temp directory waiting for index 20, the commit of
  index 20 is not rejected. It returns no error, the final directory of index 20 appears,
  and the log database then lists 30 before 20.
\<close>

theorem Commit_lower_index_counterexample:
  "final_dirs example_fs (''/data'', 30) = Dir None
   \<and> Index (example_snapshot 20 False) \<le> 30
   \<and> fst (Commit (fs_store idle_store) example_snapshotter (example_snapshot 20 False)
            \<lparr>IsExportedSnapshot = False, Path = []\<rparr> example_fs) = Ret None
   \<and> final_dirs (snd (Commit (fs_store idle_store) example_snapshotter (example_snapshot 20 False)
            \<lparr>IsExportedSnapshot = False, Path = []\<rparr> example_fs)) (''/data'', 20) = Dir None
   \<and> map Index (logdb (snd (Commit (fs_store idle_store) example_snapshotter
            (example_snapshot 20 False) \<lparr>IsExportedSnapshot = False, Path = []\<rparr> example_fs)))
       = [30, 20]"
  by (simp add: Commit_def getCustomSSEnv_def commit_meta_def saveToLogDB_def
        save_metadata_spec_def finalize_spec_def remove_flag_file_spec_def save_snapshots_spec_def
        temp_key_def final_key_def example_fs_def example_defs Let_def)

text \<open>
  Claim C3, amended. On the file system of the specification, for a commit that gets
  its environment and whose temp directory exists: when the final directory of the
  snapshot's own index already exists, \<open>Commit\<close> returns the out-of-date error, the
  final directories and the log database are what they were, and the temp directories
  differ only in the flag file written into this one; when that final directory does
  not exist, \<open>Commit\<close> returns no error whatever other final directories there are: the
  temp directory has become the final one, without a flag file, and the log database has
  the record appended unless the request is an exported snapshot.
\<close>

theorem Commit_out_of_date:
  assumes env: "getCustomSSEnv s (commit_meta snapshot req) = Ret env"
    and temp: "temp_dirs w (temp_key env) = Dir f"
  shows "(final_dirs w (final_key env) \<noteq> NoDir \<longrightarrow>
           (\<exists>w'. Commit (fs_store st) s snapshot req w = (Ret (Some errSnapshotOutOfDate), w')
              \<and> final_dirs w' = final_dirs w \<and> logdb w' = logdb w
              \<and> temp_dirs w' = (temp_dirs w)(temp_key env := Dir (Some snapshot))))
       \<and> (final_dirs w (final_key env) = NoDir \<longrightarrow>
           (\<exists>w'. Commit (fs_store st) s snapshot req w = (Ret None, w')
              \<and> final_dirs w' = (final_dirs w)(final_key env := Dir None)
              \<and> logdb w' = (if IsExportedSnapshot req then logdb w else logdb w @ [snapshot])
              \<and> temp_dirs w' = (temp_dirs w)(temp_key env := NoDir)))"
  using env temp
  by (cases "final_dirs w (final_key env)")
     (simp_all add: Commit_def saveToLogDB_def save_metadata_spec_def finalize_spec_def
        remove_flag_file_spec_def save_snapshots_spec_def Let_def)

theorem Commit_out_of_date_witness:
  "getCustomSSEnv example_snapshotter
       (commit_meta (example_snapshot 30 False) \<lparr>IsExportedSnapshot = False, Path = []\<rparr>)
     = Ret (getSSEnv example_snapshotter 30)
   \<and> temp_dirs example_fs_again (temp_key (getSSEnv example_snapshotter 30)) = Dir None
   \<and> final_dirs example_fs_again (final_key (getSSEnv example_snapshotter 30)) = Dir None
   \<and> fst (Commit (fs_store idle_store) example_snapshotter (example_snapshot 30 False)
           \<lparr>IsExportedSnapshot = False, Path = []\<rparr> example_fs_again)
       = Ret (Some errSnapshotOutOfDate)
   \<and> logdb (snd (Commit (fs_store idle_store) example_snapshotter (example_snapshot 30 False)
           \<lparr>IsExportedSnapshot = False, Path = []\<rparr> example_fs_again))
       = [example_snapshot 30 False]"
proof -
  let ?req = "\<lparr>IsExportedSnapshot = False, Path = []\<rparr>"
  let ?env = "getSSEnv example_snapshotter 30"
  have h1: "getCustomSSEnv example_snapshotter (commit_meta (example_snapshot 30 False) ?req)
              = Ret ?env"
    by (simp add: getCustomSSEnv_def commit_meta_def example_defs)
  have h2: "temp_dirs example_fs_again (temp_key ?env) = Dir None"
    by (simp add: example_fs_again_def example_fs_def temp_key_def example_defs)
  have h3: "final_dirs example_fs_again (final_key ?env) = Dir None"
    by (simp add: example_fs_again_def example_fs_def final_key_def example_defs)
  have l: "logdb example_fs_again = [example_snapshot 30 False]"
    by (simp add: example_fs_again_def example_fs_def)
  from Commit_out_of_date[OF h1 h2, of idle_store] h3
  obtain w' where "Commit (fs_store idle_store) example_snapshotter (example_snapshot 30 False)
                     ?req example_fs_again = (Ret (Some errSnapshotOutOfDate), w')"
    and "logdb w' = logdb example_fs_again"
    by auto
  with h1 h2 h3 l show ?thesis by simp
qed

end
